theory Spec2Isabelle
  imports Main "HOL-Library.AList" "HOL-Library.Char_ord" "HOL-Library.List_Lexorder"
begin

section \<open>Python strings\<close>

text \<open>
  A Python \<open>str\<close> is modelled as a \<open>string\<close>, one \<open>char\<close> per character, so that
  \<open>len\<close> is \<open>length\<close>. The helpers below are the string methods that
  \<open>scripts/export_bundles.py\<close> calls.
\<close>

definition startswith :: "string \<Rightarrow> string \<Rightarrow> bool" where
  \<comment> \<open>\<open>s.startswith(p)\<close>\<close>
  "startswith s p = (take (length p) s = p)"

fun str_contains :: "string \<Rightarrow> string \<Rightarrow> bool" where
  \<comment> \<open>\<open>p in s\<close> for two strings: \<open>p\<close> occurs in \<open>s\<close> as a contiguous run\<close>
  "str_contains p [] = (p = [])"
| "str_contains p (c # cs) = (startswith (c # cs) p \<or> str_contains p cs)"

fun split_on :: "char \<Rightarrow> string \<Rightarrow> string list" where
  \<comment> \<open>\<open>s.split(sep)\<close> for a separator of one character: never empty\<close>
  "split_on sep [] = [[]]"
| "split_on sep (c # cs) =
     (if c = sep then [] # split_on sep cs
      else (case split_on sep cs of
              [] \<Rightarrow> [[c]]
            | seg # segs \<Rightarrow> (c # seg) # segs))"

definition replace_char :: "char \<Rightarrow> string \<Rightarrow> string" where
  \<comment> \<open>\<open>s.replace(c, "")\<close> for a single character \<open>c\<close>\<close>
  "replace_char c s = filter (\<lambda>x. x \<noteq> c) s"

section \<open>Identifier resolver\<close>

text \<open>
  \<open>extract_notion_id\<close> returns Python's \<open>None\<close> for a placeholder and a string
  otherwise; the model returns \<open>string option\<close>. The indexings \<open>[0]\<close> and \<open>[-1]\<close>
  are applied to results of \<open>split\<close>, which are never empty, so \<open>hd\<close> and \<open>last\<close>
  are defined there (lemma \<open>split_on_nonempty\<close>).
\<close>

definition url_raw_id :: "string \<Rightarrow> string" where
  \<comment> \<open>\<open>url_or_id.split("?")[0].split("/")[-1].split("-")[-1]\<close>\<close>
  "url_raw_id url_or_id =
     (let path = hd (split_on CHR ''?'' url_or_id)
      in last (split_on CHR ''-'' (last (split_on CHR ''/'' path))))"

definition extract_notion_id :: "string \<Rightarrow> string option" where
  "extract_notion_id url_or_id =
     (if startswith url_or_id ''TODO:'' then None
      else if str_contains ''notion.so'' url_or_id
              \<and> length (url_raw_id url_or_id) = 32
           then Some (url_raw_id url_or_id)
      else (let clean = replace_char CHR ''-'' url_or_id
            in if length clean = 32 then Some clean else Some url_or_id))"

section \<open>Python values\<close>

text \<open>
  The configuration (parsed YAML) and the service's responses (parsed JSON) are nested
  Python values. A \<open>dict\<close> is an association list in insertion order whose first
  binding of a key is the one that counts; every key is a string, as in JSON. A float
  \<open>PFloat m e\<close> stands for \<open>m * 2 ^ e\<close>.
\<close>

datatype pyval =
    PNone
  | PBool bool
  | PInt int
  | PFloat int int
  | PStr string
  | PList "pyval list"
  | PDict "(string \<times> pyval) list"

datatype error =
    AttributeError
  | TypeError
  | KeyError
  | FetchError string
  | SystemExit nat

definition bindE :: "error + 'a \<Rightarrow> ('a \<Rightarrow> error + 'b) \<Rightarrow> error + 'b" where
  \<comment> \<open>sequencing: an exception raised by the first step skips the rest\<close>
  "bindE m f = (case m of Inl e \<Rightarrow> Inl e | Inr x \<Rightarrow> f x)"

fun mapE :: "('a \<Rightarrow> error + 'b) \<Rightarrow> 'a list \<Rightarrow> error + 'b list" where
  \<comment> \<open>a loop or generator that evaluates \<open>f\<close> on each element in order\<close>
  "mapE f [] = Inr []"
| "mapE f (x # xs) = bindE (f x) (\<lambda>y. bindE (mapE f xs) (\<lambda>ys. Inr (y # ys)))"

fun dict_keys :: "(string \<times> 'v) list \<Rightarrow> string list" where
  \<comment> \<open>the keys of a dict, each once, in insertion order\<close>
  "dict_keys [] = []"
| "dict_keys (kv # d) = fst kv # filter (\<lambda>k. k \<noteq> fst kv) (dict_keys d)"

fun truthy :: "pyval \<Rightarrow> bool" where
  \<comment> \<open>Python's truth value, as tested by \<open>if x\<close>, \<open>not x\<close> and \<open>x or y\<close>\<close>
  "truthy PNone = False"
| "truthy (PBool b) = b"
| "truthy (PInt i) = (i \<noteq> 0)"
| "truthy (PFloat m e) = (m \<noteq> 0)"
| "truthy (PStr s) = (s \<noteq> [])"
| "truthy (PList xs) = (xs \<noteq> [])"
| "truthy (PDict d) = (d \<noteq> [])"

definition digit_char :: "nat \<Rightarrow> char" where
  "digit_char d = char_of (48 + d)"

function str_nat :: "nat \<Rightarrow> string" where
  "str_nat n = (if n < 10 then [digit_char n] else str_nat (n div 10) @ [digit_char (n mod 10)])"
  by pat_completeness auto
termination
  by (relation "measure (\<lambda>n. n)") auto

declare str_nat.simps [simp del]

definition str_int :: "int \<Rightarrow> string" where
  "str_int i = (if i < 0 then CHR ''-'' # str_nat (nat (- i)) else str_nat (nat i))"

fun py_str :: "(pyval \<Rightarrow> string) \<Rightarrow> pyval \<Rightarrow> string" where
  \<comment> \<open>\<open>str(x)\<close>, also the rendering of \<open>{x}\<close> in an f-string. Python's built-in
      rendering of floats, lists and dicts is the parameter \<open>R\<close>.\<close>
  "py_str R PNone = ''None''"
| "py_str R (PBool b) = (if b then ''True'' else ''False'')"
| "py_str R (PInt i) = str_int i"
| "py_str R (PStr s) = s"
| "py_str R v = R v"

definition dict_get :: "(string \<times> 'v) list \<Rightarrow> string \<Rightarrow> 'v \<Rightarrow> 'v" where
  \<comment> \<open>\<open>d.get(key, default)\<close> on a dict\<close>
  "dict_get d k dflt = (case map_of d k of Some v \<Rightarrow> v | None \<Rightarrow> dflt)"

fun py_get :: "pyval \<Rightarrow> string \<Rightarrow> pyval \<Rightarrow> error + pyval" where
  \<comment> \<open>\<open>x.get(key, default)\<close>: only a dict has the method\<close>
  "py_get (PDict d) k dflt = Inr (dict_get d k dflt)"
| "py_get x k dflt = Inl AttributeError"

fun py_get_dyn :: "pyval \<Rightarrow> pyval \<Rightarrow> pyval \<Rightarrow> error + pyval" where
  \<comment> \<open>\<open>x.get(key, default)\<close> with a computed key: a list or dict key is unhashable,
      and a key that is not a string is in no dict\<close>
  "py_get_dyn (PDict d) (PStr k) dflt = py_get (PDict d) k dflt"
| "py_get_dyn (PDict d) (PList xs) dflt = Inl TypeError"
| "py_get_dyn (PDict d) (PDict e) dflt = Inl TypeError"
| "py_get_dyn (PDict d) key dflt = Inr dflt"
| "py_get_dyn x key dflt = Inl AttributeError"

fun py_subscript :: "pyval \<Rightarrow> string \<Rightarrow> error + pyval" where
  \<comment> \<open>\<open>x[key]\<close> with a string key\<close>
  "py_subscript (PDict d) k = (case map_of d k of Some v \<Rightarrow> Inr v | None \<Rightarrow> Inl KeyError)"
| "py_subscript x k = Inl TypeError"

fun py_keys :: "pyval \<Rightarrow> error + string list" where
  \<comment> \<open>\<open>x.keys()\<close>\<close>
  "py_keys (PDict d) = Inr (dict_keys d)"
| "py_keys x = Inl AttributeError"

fun py_iter :: "pyval \<Rightarrow> error + pyval list" where
  \<comment> \<open>the elements that \<open>for t in x\<close> visits\<close>
  "py_iter (PList xs) = Inr xs"
| "py_iter (PStr s) = Inr (map (\<lambda>c. PStr [c]) s)"
| "py_iter (PDict d) = Inr (map PStr (dict_keys d))"
| "py_iter x = Inl TypeError"

fun py_len :: "pyval \<Rightarrow> error + nat" where
  \<comment> \<open>\<open>len(x)\<close>\<close>
  "py_len (PList xs) = Inr (length xs)"
| "py_len (PStr s) = Inr (length s)"
| "py_len (PDict d) = Inr (length (dict_keys d))"
| "py_len x = Inl TypeError"

fun py_in :: "string \<Rightarrow> pyval \<Rightarrow> error + bool" where
  \<comment> \<open>\<open>key in x\<close> for a string \<open>key\<close>\<close>
  "py_in k (PDict d) = Inr (k \<in> set (dict_keys d))"
| "py_in k (PList xs) = Inr (PStr k \<in> set xs)"
| "py_in k (PStr s) = Inr (str_contains k s)"
| "py_in k x = Inl TypeError"

fun join_strs :: "string \<Rightarrow> string list \<Rightarrow> string" where
  "join_strs sep [] = []"
| "join_strs sep [s] = s"
| "join_strs sep (s # t # ss) = s @ sep @ join_strs sep (t # ss)"

fun str_items :: "pyval list \<Rightarrow> error + string list" where
  \<comment> \<open>\<open>join\<close> accepts strings only\<close>
  "str_items [] = Inr []"
| "str_items (PStr s # vs) = bindE (str_items vs) (\<lambda>ss. Inr (s # ss))"
| "str_items (v # vs) = Inl TypeError"

definition py_join :: "string \<Rightarrow> (pyval \<Rightarrow> error + pyval) \<Rightarrow> pyval \<Rightarrow> error + pyval" where
  \<comment> \<open>\<open>sep.join(f(t) for t in x)\<close>: the iterable is taken first, then the generator
      is run to its end, then the items are checked and joined\<close>
  "py_join sep f x =
     bindE (py_iter x) (\<lambda>ts.
     bindE (mapE f ts) (\<lambda>vs.
     bindE (str_items vs) (\<lambda>ss. Inr (PStr (join_strs sep ss)))))"

definition py_or :: "pyval \<Rightarrow> pyval \<Rightarrow> pyval" where
  \<comment> \<open>\<open>x or y\<close> with both operands already evaluated\<close>
  "py_or x y = (if truthy x then x else y)"

section \<open>Property flattener\<close>

definition name_or_empty :: "pyval \<Rightarrow> error + pyval" where
  \<comment> \<open>\<open>sel.get("name", "") if sel else ""\<close>\<close>
  "name_or_empty sel = (if truthy sel then py_get sel ''name'' (PStr []) else Inr (PStr []))"

definition file_url :: "pyval \<Rightarrow> error + pyval" where
  \<comment> \<open>\<open>f.get("external", {}).get("url", "") or f.get("file", {}).get("url", "")\<close>\<close>
  "file_url f =
     bindE (py_get f ''external'' (PDict [])) (\<lambda>ext.
     bindE (py_get ext ''url'' (PStr [])) (\<lambda>u.
       if truthy u then Inr u
       else bindE (py_get f ''file'' (PDict [])) (\<lambda>fl. py_get fl ''url'' (PStr []))))"

definition flatten_property :: "(pyval \<Rightarrow> string) \<Rightarrow> pyval \<Rightarrow> error + pyval" where
  "flatten_property R prop =
     bindE (py_get prop ''type'' (PStr [])) (\<lambda>prop_type.
       if prop_type = PStr ''title'' then
         bindE (py_get prop ''title'' (PList []))
           (py_join [] (\<lambda>t. py_get t ''plain_text'' (PStr [])))
       else if prop_type = PStr ''rich_text'' then
         bindE (py_get prop ''rich_text'' (PList []))
           (py_join [] (\<lambda>t. py_get t ''plain_text'' (PStr [])))
       else if prop_type = PStr ''number'' then
         bindE (py_get prop ''number'' PNone) (\<lambda>val.
           Inr (if val \<noteq> PNone then PStr (py_str R val) else PStr []))
       else if prop_type = PStr ''select'' then
         bindE (py_get prop ''select'' PNone) name_or_empty
       else if prop_type = PStr ''multi_select'' then
         bindE (py_get prop ''multi_select'' (PList []))
           (py_join '', '' (\<lambda>s. py_get s ''name'' (PStr [])))
       else if prop_type = PStr ''date'' then
         bindE (py_get prop ''date'' PNone) (\<lambda>d.
           if truthy d then
             bindE (py_get d ''start'' (PStr [])) (\<lambda>start.
             bindE (py_get d ''end'' (PStr [])) (\<lambda>end.
               Inr (if truthy end then PStr (py_str R start @ '' - '' @ py_str R end)
                    else start)))
           else Inr (PStr []))
       else if prop_type = PStr ''checkbox'' then
         bindE (py_get prop ''checkbox'' (PBool False)) (\<lambda>b. Inr (PStr (py_str R b)))
       else if prop_type = PStr ''url'' then
         bindE (py_get prop ''url'' (PStr [])) (\<lambda>v. Inr (py_or v (PStr [])))
       else if prop_type = PStr ''email'' then
         bindE (py_get prop ''email'' (PStr [])) (\<lambda>v. Inr (py_or v (PStr [])))
       else if prop_type = PStr ''phone_number'' then
         bindE (py_get prop ''phone_number'' (PStr [])) (\<lambda>v. Inr (py_or v (PStr [])))
       else if prop_type = PStr ''status'' then
         bindE (py_get prop ''status'' PNone) name_or_empty
       else if prop_type = PStr ''relation'' then
         bindE (py_get prop ''relation'' (PList []))
           (py_join '', '' (\<lambda>r. py_get r ''id'' (PStr [])))
       else if prop_type = PStr ''formula'' then
         bindE (py_get prop ''formula'' (PDict [])) (\<lambda>f.
         bindE (py_get f ''type'' (PStr [])) (\<lambda>f_type.
         bindE (py_get_dyn f f_type (PStr [])) (\<lambda>v. Inr (PStr (py_str R v)))))
       else if prop_type = PStr ''rollup'' then
         bindE (py_get prop ''rollup'' (PDict [])) (\<lambda>r.
         bindE (py_get r ''type'' (PStr [])) (\<lambda>r_type.
           if r_type = PStr ''array'' then
             bindE (py_get r ''array'' (PList [])) (\<lambda>a.
             bindE (py_len a) (\<lambda>n. Inr (PStr (str_nat n))))
           else bindE (py_get_dyn r r_type (PStr [])) (\<lambda>v. Inr (PStr (py_str R v)))))
       else if prop_type = PStr ''created_time'' then
         py_get prop ''created_time'' (PStr [])
       else if prop_type = PStr ''last_edited_time'' then
         py_get prop ''last_edited_time'' (PStr [])
       else if prop_type = PStr ''created_by'' then
         bindE (py_get prop ''created_by'' (PDict [])) (\<lambda>u. py_get u ''name'' (PStr []))
       else if prop_type = PStr ''last_edited_by'' then
         bindE (py_get prop ''last_edited_by'' (PDict [])) (\<lambda>u. py_get u ''name'' (PStr []))
       else if prop_type = PStr ''people'' then
         bindE (py_get prop ''people'' (PList []))
           (py_join '', '' (\<lambda>p. py_get p ''name'' (PStr [])))
       else if prop_type = PStr ''files'' then
         bindE (py_get prop ''files'' (PList [])) (py_join '', '' file_url)
       else Inr (PStr (py_str R prop)))"

section \<open>The world: remote service, filesystem, console\<close>

text \<open>
  The effects of the program are made explicit. The remote service is a function from
  the history of all queries issued so far (the last one being the current query) to
  its answer, either an exception of the client or the response; the history is also
  the log of the queries the program has issued. The filesystem is the list of
  directories created and the files written, by path; a path is the list of its
  segments. \<open>JsonText v\<close> and \<open>JsonFile v\<close> stand for the text
  \<open>json.dumps(v, indent=2)\<close> printed or written, and \<open>CsvFile header rows\<close> for
  what \<open>csv.DictWriter\<close> writes: the header line and one line of cells per row.
  Failures of the operating system on \<open>mkdir\<close> and \<open>open\<close> are not modelled.
\<close>

record request =
  database_id :: string
  page_size :: nat
  start_cursor :: "pyval option"

type_synonym service = "request list \<Rightarrow> error + pyval"

type_synonym path = "string list"

datatype console = Line string | JsonText pyval

datatype file_content = CsvFile "string list" "pyval list list" | JsonFile pyval

record world =
  files :: "(path \<times> file_content) list"
  dirs :: "path list"
  stdout :: "console list"
  stderr :: "string list"
  queries :: "request list"

type_synonym 'a io = "world \<Rightarrow> (error + 'a) \<times> world"

definition bindS :: "'a io \<Rightarrow> ('a \<Rightarrow> 'b io) \<Rightarrow> 'b io" where
  "bindS m f w = (case m w of (Inl e, w') \<Rightarrow> (Inl e, w') | (Inr x, w') \<Rightarrow> f x w')"

definition liftE :: "error + 'a \<Rightarrow> 'a io" where
  "liftE r w = (r, w)"

definition print_out :: "string \<Rightarrow> world \<Rightarrow> world" where
  \<comment> \<open>\<open>print(s)\<close>\<close>
  "print_out s w = w\<lparr>stdout := stdout w @ [Line s]\<rparr>"

definition print_json :: "pyval \<Rightarrow> world \<Rightarrow> world" where
  \<comment> \<open>\<open>print(json.dumps(v, indent=2))\<close>\<close>
  "print_json v w = w\<lparr>stdout := stdout w @ [JsonText v]\<rparr>"

definition print_err :: "string \<Rightarrow> world \<Rightarrow> world" where
  \<comment> \<open>\<open>print(s, file=sys.stderr)\<close>\<close>
  "print_err s w = w\<lparr>stderr := stderr w @ [s]\<rparr>"

definition effect :: "(world \<Rightarrow> world) \<Rightarrow> unit io" where
  \<comment> \<open>a statement that changes the world and cannot fail\<close>
  "effect f w = (Inr (), f w)"

definition path_str :: "path \<Rightarrow> string" where
  \<comment> \<open>\<open>str(p)\<close> of a path\<close>
  "path_str p = join_strs ''/'' p"

definition mkdir_parents :: "path \<Rightarrow> world \<Rightarrow> world" where
  \<comment> \<open>\<open>p.mkdir(parents=True, exist_ok=True)\<close>: the directory and its missing ancestors\<close>
  "mkdir_parents p w =
     w\<lparr>dirs := dirs w @
        filter (\<lambda>d. d \<notin> set (dirs w)) (map (\<lambda>n. take n p) [1 ..< Suc (length p)])\<rparr>"

definition write_file :: "path \<Rightarrow> file_content \<Rightarrow> world \<Rightarrow> world" where
  \<comment> \<open>\<open>open(p, "w")\<close> and the writes that follow: the file is created or replaced\<close>
  "write_file p c w = w\<lparr>files := AList.update p c (files w)\<rparr>"

section \<open>Paginated fetcher\<close>

definition cursor_kwarg :: "pyval \<Rightarrow> pyval option" where
  \<comment> \<open>\<open>if start_cursor: kwargs["start_cursor"] = start_cursor\<close>: the keyword is passed
      only for a cursor that is true\<close>
  "cursor_kwarg cursor = (if truthy cursor then Some cursor else None)"

definition query_step ::
  "service \<Rightarrow> string \<Rightarrow> pyval list \<Rightarrow> pyval \<Rightarrow> request list
     \<Rightarrow> (error + pyval list \<times> pyval option) \<times> request list" where
  \<comment> \<open>one pass through the body of \<open>while True\<close>: the result is the exception
      raised, or the pages so far together with \<open>None\<close> after \<open>break\<close> and with the
      next \<open>start_cursor\<close> otherwise\<close>
  "query_step notion db_id pages cursor log =
     (let kwargs = \<lparr>database_id = db_id, page_size = 100,
                     start_cursor = cursor_kwarg cursor\<rparr>;
          log' = log @ [kwargs]
      in (bindE (notion log') (\<lambda>response.
          bindE (py_get response ''results'' (PList [])) (\<lambda>results.
          bindE (py_iter results) (\<lambda>items.
          bindE (py_get response ''has_more'' PNone) (\<lambda>has_more.
            if \<not> truthy has_more then Inr (pages @ items, None)
            else bindE (py_get response ''next_cursor'' PNone) (\<lambda>c.
                   Inr (pages @ items, Some c)))))),
          log'))"

partial_function (option) query_loop ::
  "service \<Rightarrow> string \<Rightarrow> pyval list \<Rightarrow> pyval \<Rightarrow> request list
     \<Rightarrow> ((error + pyval list) \<times> request list) option" where
  "query_loop notion db_id pages cursor log =
     (case query_step notion db_id pages cursor log of
        (Inl e, log') \<Rightarrow> Some (Inl e, log')
      | (Inr (pages', None), log') \<Rightarrow> Some (Inr pages', log')
      | (Inr (pages', Some c), log') \<Rightarrow> query_loop notion db_id pages' c log')"

declare query_loop.simps [code]

definition query_all_pages ::
  "service \<Rightarrow> string \<Rightarrow> request list \<Rightarrow> ((error + pyval list) \<times> request list) option" where
  \<comment> \<open>\<open>pages = []\<close>, \<open>start_cursor = None\<close>, then the loop; \<open>None\<close> is a loop
      that never ends\<close>
  "query_all_pages notion db_id log = query_loop notion db_id [] PNone log"

section \<open>Bundle exporter\<close>

definition extract_notion_id_py :: "pyval \<Rightarrow> error + string option" where
  \<comment> \<open>the call \<open>extract_notion_id(notion_url)\<close> on a value of the configuration:
      only a string has \<open>startswith\<close>\<close>
  "extract_notion_id_py v =
     (case v of PStr s \<Rightarrow> Inr (extract_notion_id s) | _ \<Rightarrow> Inl AttributeError)"

fun fill_row ::
  "(pyval \<Rightarrow> string) \<Rightarrow> pyval \<Rightarrow> string list \<Rightarrow> (string \<times> pyval) list
     \<Rightarrow> error + (string \<times> pyval) list" where
  \<comment> \<open>\<open>for col in columns\<close>, on the row built so far\<close>
  "fill_row R props [] row = Inr row"
| "fill_row R props (col # cols) row =
     bindE (py_in col props) (\<lambda>present.
       if present then
         bindE (py_subscript props col) (\<lambda>p.
         bindE (flatten_property R p) (\<lambda>v.
           fill_row R props cols (AList.update col v row)))
       else fill_row R props cols (AList.update col (PStr []) row))"

definition build_row ::
  "(pyval \<Rightarrow> string) \<Rightarrow> string list \<Rightarrow> pyval \<Rightarrow> error + (string \<times> pyval) list" where
  \<comment> \<open>the body of \<open>for page in pages\<close>\<close>
  "build_row R columns page =
     bindE (py_get page ''properties'' (PDict [])) (\<lambda>props.
     bindE (fill_row R props columns []) (\<lambda>row.
     bindE (py_get page ''id'' (PStr [])) (\<lambda>pid.
     bindE (py_get page ''last_edited_time'' (PStr [])) (\<lambda>edited.
       Inr (AList.update ''_last_edited'' edited
             (AList.update ''_notion_id'' pid row))))))"

definition export_table ::
  "(pyval \<Rightarrow> string) \<Rightarrow> pyval \<Rightarrow> pyval list
     \<Rightarrow> error + string list \<times> (string \<times> pyval) list list" where
  \<comment> \<open>\<open>export_database\<close> from "Extract column headers" to \<open>all_columns\<close>;
      \<open>first\<close> is \<open>pages[0]\<close>\<close>
  "export_table R first pages =
     bindE (py_get first ''properties'' (PDict [])) (\<lambda>first_props.
     bindE (py_keys first_props) (\<lambda>ks.
       let columns = sort ks in
       bindE (mapE (build_row R columns) pages) (\<lambda>rows.
         Inr (columns @ [''_notion_id'', ''_last_edited''], rows))))"

definition csv_cells :: "string list \<Rightarrow> (string \<times> pyval) list \<Rightarrow> pyval list" where
  \<comment> \<open>the cells \<open>csv.DictWriter\<close> writes for a row: \<open>row.get(key, "")\<close> for each
      field name in order. It raises on a row with a key that is not a field name;
      no row built here has one (lemma \<open>export_table_shape\<close>).\<close>
  "csv_cells fieldnames row = map (\<lambda>k. dict_get row k (PStr [])) fieldnames"

definition export_pages ::
  "(pyval \<Rightarrow> string) \<Rightarrow> pyval \<Rightarrow> path \<Rightarrow> bool \<Rightarrow> pyval list \<Rightarrow> pyval io" where
  \<comment> \<open>\<open>export_database\<close> after the fetch\<close>
  "export_pages R db_key output_dir dry pages w =
     (let key = py_str R db_key;
          w1 = print_out (''    Fetched '' @ str_nat (length pages) @ '' rows'') w
      in case pages of
           [] \<Rightarrow>
             (Inr (PDict [(''db_key'', db_key),
                          (''output'', PStr (''data/'' @ key @ ''.csv'')),
                          (''row_count'', PInt 0)]),
              print_out (''    No data to export for '' @ [CHR 0x27] @ key @ [CHR 0x27]) w1)
         | first # _ \<Rightarrow>
             (case export_table R first pages of
                Inl e \<Rightarrow> (Inl e, w1)
              | Inr (all_columns, rows) \<Rightarrow>
                  (Inr (PDict [(''db_key'', db_key),
                               (''output'', PStr (''data/'' @ key @ ''.csv'')),
                               (''row_count'', PInt (int (length rows))),
                               (''columns'', PInt (int (length all_columns)))]),
                   if dry then
                     print_out (''    [DRY RUN] Would write '' @ str_nat (length rows)
                                @ '' rows to data/'' @ key @ ''.csv'') w1
                   else
                     (let csv_path = output_dir @ [''data'', key @ ''.csv''] in
                      print_out (''    Wrote '' @ str_nat (length rows) @ '' rows to ''
                                 @ path_str csv_path)
                        (write_file csv_path
                           (CsvFile all_columns (map (csv_cells all_columns) rows))
                           (mkdir_parents (butlast csv_path) w1))))))"

definition skip_database :: "(pyval \<Rightarrow> string) \<Rightarrow> pyval \<Rightarrow> pyval io" where
  \<comment> \<open>the branch \<open>if not db_id\<close>: a message on the error stream, and \<open>None\<close>\<close>
  "skip_database R db_key w =
     (Inr PNone,
      print_err (''  Skipping '' @ [CHR 0x27] @ py_str R db_key @ [CHR 0x27]
                 @ '': placeholder URL'') w)"

definition announce_export :: "(pyval \<Rightarrow> string) \<Rightarrow> pyval \<Rightarrow> string \<Rightarrow> world \<Rightarrow> world" where
  \<comment> \<open>the line printed before the fetch, with \<open>db_id[:8]\<close>\<close>
  "announce_export R db_key db_id w =
     print_out (''  Exporting '' @ [CHR 0x27] @ py_str R db_key @ [CHR 0x27]
                @ '' (ID: '' @ take 8 db_id @ ''...)'') w"

definition export_database ::
  "(pyval \<Rightarrow> string) \<Rightarrow> service \<Rightarrow> pyval \<Rightarrow> path \<Rightarrow> bool \<Rightarrow> world
     \<Rightarrow> ((error + pyval) \<times> world) option" where
  \<comment> \<open>the manifest item, or \<open>PNone\<close> for a skipped database; \<open>None\<close> when the
      fetch never ends\<close>
  "export_database R notion db_config output_dir dry w =
     (case py_subscript db_config ''key'' of
        Inl e \<Rightarrow> Some (Inl e, w)
      | Inr db_key \<Rightarrow>
     (case bindE (py_get db_config ''notion_url'' (PStr [])) extract_notion_id_py of
        Inl e \<Rightarrow> Some (Inl e, w)
      | Inr None \<Rightarrow> Some (skip_database R db_key w)
      | Inr (Some db_id) \<Rightarrow>
          if db_id = [] then Some (skip_database R db_key w)
          else
            (let w1 = announce_export R db_key db_id w
             in case query_all_pages notion db_id (queries w1) of
                  None \<Rightarrow> None
                | Some (Inl e, log) \<Rightarrow> Some (Inl e, w1\<lparr>queries := log\<rparr>)
                | Some (Inr pages, log) \<Rightarrow>
                    Some (export_pages R db_key output_dir dry pages (w1\<lparr>queries := log\<rparr>)))))"

section \<open>Main program and manifest\<close>

text \<open>
  What the program reads from its environment is gathered in a record: Python's
  rendering of floats and containers, the remote service, the YAML document found at
  a path, the environment variables and the clock.
\<close>

record args =
  args_bundle :: string
  args_config :: string
  args_dry_run :: bool

datatype yaml_result = FileNotFound | YAMLError string | Loaded pyval

record env =
  py_render :: "pyval \<Rightarrow> string"
  notion_client :: service
  yaml_file :: "string \<Rightarrow> yaml_result"
  os_getenv :: "string \<Rightarrow> string option"
  utc_now :: string

definition load_yaml_config :: "(string \<Rightarrow> yaml_result) \<Rightarrow> string \<Rightarrow> pyval io" where
  "load_yaml_config yaml path w =
     (case yaml path of
        Loaded cfg \<Rightarrow> (Inr cfg, w)
      | FileNotFound \<Rightarrow>
          (Inl (SystemExit 1), print_err (''Config file not found: '' @ path) w)
      | YAMLError e \<Rightarrow>
          (Inl (SystemExit 1), print_err (''Invalid YAML in '' @ path @ '': '' @ e) w))"

definition py_path :: "pyval \<Rightarrow> error + path" where
  \<comment> \<open>\<open>Path(x)\<close>, and the right operand of \<open>/\<close>: a string, one segment\<close>
  "py_path x = (case x of PStr s \<Rightarrow> Inr [s] | _ \<Rightarrow> Inl TypeError)"

definition getenv_default :: "(string \<Rightarrow> string option) \<Rightarrow> string \<Rightarrow> string \<Rightarrow> string" where
  \<comment> \<open>\<open>os.getenv(name, default)\<close>\<close>
  "getenv_default getenv name dflt = (case getenv name of Some v \<Rightarrow> v | None \<Rightarrow> dflt)"

definition unknown_bundle :: "args \<Rightarrow> pyval \<Rightarrow> 'a io" where
  \<comment> \<open>the branch \<open>if args.bundle not in bundles\<close>\<close>
  "unknown_bundle a bundles w =
     (let w1 = print_err (''Bundle '' @ [CHR 0x27] @ args_bundle a @ [CHR 0x27]
                          @ '' not found in config'') w
      in case py_keys bundles of
           Inl e \<Rightarrow> (Inl e, w1)
         | Inr ks \<Rightarrow>
             (Inl (SystemExit 1),
              print_out (''Available bundles: '' @ join_strs '', '' ks) w1))"

definition print_banner :: "env \<Rightarrow> args \<Rightarrow> pyval \<Rightarrow> path \<Rightarrow> unit io" where
  \<comment> \<open>the lines printed before the token is read\<close>
  "print_banner E a bundle_cfg output_dir =
     bindS (effect (print_out (''ChittyApps Bundle Export: '' @ args_bundle a))) (\<lambda>_.
     bindS (liftE (py_get bundle_cfg ''name'' (PStr ''unknown''))) (\<lambda>name.
     bindS (effect (print_out (''  Name: '' @ py_str (py_render E) name))) (\<lambda>_.
     bindS (liftE (py_get bundle_cfg ''schema_version'' (PStr ''1.0.0''))) (\<lambda>schema.
     bindS (effect (print_out (''  Schema: '' @ py_str (py_render E) schema))) (\<lambda>_.
     bindS (effect (print_out (''  Output: '' @ path_str output_dir))) (\<lambda>_.
     bindS (effect (if args_dry_run a then print_out ''  Mode: DRY RUN'' else id)) (\<lambda>_.
     effect (print_out []))))))))"

definition read_token :: "env \<Rightarrow> unit io" where
  \<comment> \<open>\<open>os.getenv("NOTION_TOKEN")\<close> and \<open>if not notion_token\<close>\<close>
  "read_token E w =
     (if os_getenv E ''NOTION_TOKEN'' = None \<or> os_getenv E ''NOTION_TOKEN'' = Some []
      then (Inl (SystemExit 1), print_err ''NOTION_TOKEN environment variable not set'' w)
      else (Inr (), w))"

definition main_setup :: "env \<Rightarrow> args \<Rightarrow> (pyval \<times> pyval \<times> path \<times> pyval list) io" where
  \<comment> \<open>\<open>main\<close> up to the loop over the databases: the bundle's configuration, the
      defaults, the output directory and the databases the loop visits\<close>
  "main_setup E a =
     bindS (load_yaml_config (yaml_file E) (args_config a)) (\<lambda>cfg.
     bindS (liftE (py_get cfg ''export_bundles'' (PDict []))) (\<lambda>bundles.
     bindS (liftE (py_get cfg ''defaults'' (PDict []))) (\<lambda>defaults.
     bindS (liftE (py_in (args_bundle a) bundles)) (\<lambda>found.
       if \<not> found then unknown_bundle a bundles
       else
         bindS (liftE (py_subscript bundles (args_bundle a))) (\<lambda>bundle_cfg.
         bindS (liftE (bindE (py_get defaults ''output_root'' (PStr ''packages'')) py_path))
           (\<lambda>output_root.
         bindS (print_banner E a bundle_cfg (output_root @ [args_bundle a])) (\<lambda>_.
         bindS (read_token E) (\<lambda>_.
         bindS (liftE (py_get bundle_cfg ''databases'' (PList []))) (\<lambda>databases.
         bindS (liftE (py_iter databases)) (\<lambda>dbs.
           liftE (Inr (bundle_cfg, defaults, output_root @ [args_bundle a], dbs))))))))))))"

fun export_each ::
  "(pyval \<Rightarrow> string) \<Rightarrow> service \<Rightarrow> path \<Rightarrow> bool \<Rightarrow> pyval list \<Rightarrow> pyval list \<Rightarrow> world
     \<Rightarrow> ((error + pyval list) \<times> world) option" where
  \<comment> \<open>\<open>for db_config in databases\<close>, on the manifest items gathered so far\<close>
  "export_each R notion output_dir dry [] manifest_items w = Some (Inr manifest_items, w)"
| "export_each R notion output_dir dry (db_config # rest) manifest_items w =
     (case export_database R notion db_config output_dir dry w of
        None \<Rightarrow> None
      | Some (Inl e, w') \<Rightarrow> Some (Inl e, w')
      | Some (Inr result, w') \<Rightarrow>
          export_each R notion output_dir dry rest
            (if truthy result then manifest_items @ [result] else manifest_items) w')"

fun sum_ints :: "pyval list \<Rightarrow> error + int" where
  \<comment> \<open>\<open>sum\<close> of integers; a row count is never anything else
      (lemma \<open>export_each_items\<close>)\<close>
  "sum_ints [] = Inr 0"
| "sum_ints (PInt n # vs) = bindE (sum_ints vs) (\<lambda>t. Inr (n + t))"
| "sum_ints (v # vs) = Inl TypeError"

definition build_manifest :: "env \<Rightarrow> args \<Rightarrow> pyval \<Rightarrow> pyval list \<Rightarrow> error + pyval" where
  \<comment> \<open>the dict literal \<open>manifest = {...}\<close>\<close>
  "build_manifest E a bundle_cfg manifest_items =
     bindE (py_get bundle_cfg ''name'' PNone) (\<lambda>name.
     bindE (py_get bundle_cfg ''schema_version'' (PStr ''1.0.0'')) (\<lambda>schema.
     bindE (mapE (\<lambda>i. py_get i ''row_count'' (PInt 0)) manifest_items) (\<lambda>counts.
     bindE (sum_ints counts) (\<lambda>total.
       Inr (PDict
         [(''bundle'', PStr (args_bundle a)),
          (''name'', name),
          (''schema_version'', schema),
          (''exported_at'', PStr (utc_now E)),
          (''items'', PList manifest_items),
          (''audit'', PDict
             [(''chitty_id'', PStr (getenv_default (os_getenv E) ''CHITTY_ID'' [])),
              (''workflow'', PStr (getenv_default (os_getenv E) ''GITHUB_WORKFLOW'' ''manual'')),
              (''actor'', PStr (getenv_default (os_getenv E) ''GITHUB_ACTOR'' ''local''))]),
          (''totals'', PDict
             [(''databases'', PInt (int (length manifest_items))),
              (''total_rows'', PInt total)])])))))"

definition write_manifest :: "args \<Rightarrow> path \<Rightarrow> pyval \<Rightarrow> pyval \<Rightarrow> unit io" where
  \<comment> \<open>\<open>if args.dry_run: ... else: ...\<close> at the end of \<open>main\<close>\<close>
  "write_manifest a output_dir manifest_filename manifest =
     (if args_dry_run a then
        bindS (liftE (py_path manifest_filename)) (\<lambda>name.
        bindS (effect (print_out ([CHR 0x0A] @ ''[DRY RUN] Would write manifest to ''
                                  @ path_str (output_dir @ name)))) (\<lambda>_.
        effect (print_json manifest)))
      else
        bindS (effect (mkdir_parents output_dir)) (\<lambda>_.
        bindS (liftE (py_path manifest_filename)) (\<lambda>name.
        bindS (effect (write_file (output_dir @ name) (JsonFile manifest))) (\<lambda>_.
        effect (print_out ([CHR 0x0A] @ ''Manifest written to ''
                           @ path_str (output_dir @ name)))))))"

definition main_finish ::
  "env \<Rightarrow> args \<Rightarrow> pyval \<Rightarrow> pyval \<Rightarrow> path \<Rightarrow> pyval list \<Rightarrow> unit io" where
  \<comment> \<open>\<open>main\<close> after the loop: the manifest, written or printed, and the summary line\<close>
  "main_finish E a bundle_cfg defaults output_dir manifest_items =
     bindS (liftE (build_manifest E a bundle_cfg manifest_items)) (\<lambda>manifest.
     bindS (liftE (py_get defaults ''manifest_filename'' (PStr ''manifest.json'')))
       (\<lambda>manifest_filename.
     bindS (write_manifest a output_dir manifest_filename manifest) (\<lambda>_.
     bindS (liftE (bindE (py_subscript manifest ''totals'')
                     (\<lambda>t. py_subscript t ''databases''))) (\<lambda>n_databases.
     bindS (liftE (bindE (py_subscript manifest ''totals'')
                     (\<lambda>t. py_subscript t ''total_rows''))) (\<lambda>n_rows.
     effect (print_out ([CHR 0x0A] @ ''Export complete: ''
                        @ py_str (py_render E) n_databases @ '' databases, ''
                        @ py_str (py_render E) n_rows @ '' total rows'')))))))"

definition main :: "env \<Rightarrow> args \<Rightarrow> world \<Rightarrow> ((error + unit) \<times> world) option" where
  \<comment> \<open>\<open>main\<close>, given the parsed command line; \<open>None\<close> when a fetch never ends\<close>
  "main E a w =
     (case main_setup E a w of
        (Inl e, w1) \<Rightarrow> Some (Inl e, w1)
      | (Inr (bundle_cfg, defaults, output_dir, databases), w1) \<Rightarrow>
          (case export_each (py_render E) (notion_client E) output_dir (args_dry_run a)
                  databases [] w1 of
             None \<Rightarrow> None
           | Some (Inl e, w2) \<Rightarrow> Some (Inl e, w2)
           | Some (Inr manifest_items, w2) \<Rightarrow>
               Some (main_finish E a bundle_cfg defaults output_dir manifest_items w2)))"

section \<open>Frame condition\<close>

definition keeps_fs :: "'a io \<Rightarrow> bool" where
  \<comment> \<open>a statement that leaves the files and directories as they are, whatever its
      outcome; used in proofs only\<close>
  "keeps_fs m = (\<forall>w. files (snd (m w)) = files w \<and> dirs (snd (m w)) = dirs w)"

section \<open>Sample inputs\<close>

text \<open>Concrete inputs on which the theorems below are instantiated and evaluated.\<close>

definition sample_render :: "pyval \<Rightarrow> string" where
  "sample_render v = ''<object>''"

definition empty_world :: world where
  "empty_world = \<lparr>files = [], dirs = [], stdout = [], stderr = [], queries = []\<rparr>"

definition record_n :: "nat \<Rightarrow> pyval" where
  \<comment> \<open>a record that carries its number\<close>
  "record_n n = PDict [(''id'', PInt (int n))]"

definition first_page :: "(string \<times> pyval) list" where
  "first_page = [(''results'', PList (map record_n [0 ..< 100])),
                 (''has_more'', PBool True),
                 (''next_cursor'', PStr ''cursor-100'')]"

definition second_page :: "(string \<times> pyval) list" where
  "second_page = [(''results'', PList (map record_n [100 ..< 150])),
                  (''has_more'', PBool False),
                  (''next_cursor'', PNone)]"

definition two_page_service :: service where
  \<comment> \<open>150 records in two pages, served by the cursor of the query\<close>
  "two_page_service log =
     (case start_cursor (last log) of
        None \<Rightarrow> Inr (PDict first_page)
      | Some c \<Rightarrow> if c = PStr ''cursor-100'' then Inr (PDict second_page)
                  else Inl (FetchError ''unknown cursor''))"

definition empty_cursor_service :: service where
  \<comment> \<open>a first response that announces more data with an empty cursor\<close>
  "empty_cursor_service log =
     (if length log = 1
      then Inr (PDict [(''results'', PList [record_n 0]),
                       (''has_more'', PBool True), (''next_cursor'', PStr [])])
      else Inr (PDict [(''results'', PList [record_n 1]), (''has_more'', PBool False)]))"

definition empty_service :: service where
  \<comment> \<open>a database without records\<close>
  "empty_service log = Inr (PDict [(''results'', PList []), (''has_more'', PBool False)])"

definition titled :: "string \<Rightarrow> pyval" where
  \<comment> \<open>a title property of one text run\<close>
  "titled s = PDict [(''type'', PStr ''title''),
                     (''title'', PList [PDict [(''plain_text'', PStr s)]])]"

definition selected :: "string \<Rightarrow> pyval" where
  \<comment> \<open>a select property\<close>
  "selected s = PDict [(''type'', PStr ''select''), (''select'', PDict [(''name'', PStr s)])]"

definition page_of :: "string \<Rightarrow> string \<Rightarrow> (string \<times> pyval) list \<Rightarrow> pyval" where
  \<comment> \<open>a record with its identifier, timestamp and properties\<close>
  "page_of pid edited props =
     PDict [(''id'', PStr pid), (''last_edited_time'', PStr edited),
            (''properties'', PDict props)]"

definition three_records :: "pyval list" where
  \<comment> \<open>three records with the properties \<open>Name\<close> and \<open>Status\<close>\<close>
  "three_records =
     [page_of ''r1'' ''2024-01-01T10:00:00.000Z''
        [(''Status'', selected ''live''), (''Name'', titled ''alpha'')],
      page_of ''r2'' ''2024-01-02T10:00:00.000Z''
        [(''Status'', selected ''beta''), (''Name'', titled ''bravo'')],
      page_of ''r3'' ''2024-01-03T10:00:00.000Z''
        [(''Status'', selected ''live''), (''Name'', titled ''charlie'')]]"

definition three_record_service :: service where
  "three_record_service log =
     Inr (PDict [(''results'', PList three_records), (''has_more'', PBool False),
                 (''next_cursor'', PNone)])"

definition placeholder_db :: pyval where
  "placeholder_db = PDict [(''key'', PStr ''pending''),
                           (''notion_url'', PStr ''TODO: create the database'')]"

definition services_db :: pyval where
  "services_db = PDict [(''key'', PStr ''services''),
                        (''notion_url'', PStr ''0123456789abcdef0123456789abcdef'')]"

definition sample_config :: pyval where
  \<comment> \<open>a bundle of one placeholder database and one database of three records\<close>
  "sample_config =
     PDict [(''export_bundles'',
             PDict [(''core'',
                     PDict [(''name'', PStr ''Core''),
                            (''schema_version'', PStr ''1.0.0''),
                            (''databases'', PList [placeholder_db, services_db])])]),
            (''defaults'', PDict [(''output_root'', PStr ''packages'')])]"

definition sample_yaml :: "string \<Rightarrow> yaml_result" where
  "sample_yaml path =
     (if path = ''chittyos-export.yaml'' then Loaded sample_config else FileNotFound)"

definition sample_getenv :: "string \<Rightarrow> string option" where
  "sample_getenv name = (if name = ''NOTION_TOKEN'' then Some ''secret'' else None)"

definition sample_env :: env where
  "sample_env =
     \<lparr>py_render = sample_render, notion_client = three_record_service,
      yaml_file = sample_yaml, os_getenv = sample_getenv,
      utc_now = ''2024-01-04T00:00:00+00:00''\<rparr>"

definition sample_args :: "bool \<Rightarrow> args" where
  "sample_args dry = \<lparr>args_bundle = ''core'', args_config = ''chittyos-export.yaml'',
                        args_dry_run = dry\<rparr>"

definition core_bundle :: pyval where
  \<comment> \<open>the bundle \<open>core\<close> of \<open>sample_config\<close>\<close>
  "core_bundle =
     PDict [(''name'', PStr ''Core''), (''schema_version'', PStr ''1.0.0''),
            (''databases'', PList [placeholder_db, services_db])]"

definition services_item :: pyval where
  \<comment> \<open>the manifest item expected for \<open>services_db\<close>\<close>
  "services_item =
     PDict [(''db_key'', PStr ''services''), (''output'', PStr ''data/services.csv''),
            (''row_count'', PInt 3), (''columns'', PInt 4)]"

definition sample_manifest :: pyval where
  \<comment> \<open>the manifest expected for the sample run\<close>
  "sample_manifest =
     PDict [(''bundle'', PStr ''core''), (''name'', PStr ''Core''),
            (''schema_version'', PStr ''1.0.0''),
            (''exported_at'', PStr ''2024-01-04T00:00:00+00:00''),
            (''items'', PList [services_item]),
            (''audit'', PDict [(''chitty_id'', PStr []), (''workflow'', PStr ''manual''),
                               (''actor'', PStr ''local'')]),
            (''totals'', PDict [(''databases'', PInt 1), (''total_rows'', PInt 3)])]"


definition sample_queries :: "request list" where
  "sample_queries =
     [\<lparr>database_id = ''0123456789abcdef0123456789abcdef'', page_size = 100,
       start_cursor = None\<rparr>]"

definition sample_stderr :: "string list" where
  "sample_stderr =
     [''  Skipping '' @ [CHR 0x27] @ ''pending'' @ [CHR 0x27] @ '': placeholder URL'']"


definition dry_run_world :: world where
  \<comment> \<open>the world expected after the sample run in dry-run mode\<close>
  "dry_run_world =
     \<lparr>files = [], dirs = [],
      stdout =
        [Line ''ChittyApps Bundle Export: core'', Line ''  Name: Core'',
         Line ''  Schema: 1.0.0'', Line ''  Output: packages/core'',
         Line ''  Mode: DRY RUN'', Line [],
         Line (''  Exporting '' @ [CHR 0x27] @ ''services'' @ [CHR 0x27]
               @ '' (ID: 01234567...)''),
         Line ''    Fetched 3 rows'',
         Line ''    [DRY RUN] Would write 3 rows to data/services.csv'',
         Line ([CHR 0x0A] @ ''[DRY RUN] Would write manifest to packages/core/manifest.json''),
         JsonText sample_manifest,
         Line ([CHR 0x0A] @ ''Export complete: 1 databases, 3 total rows'')],
      stderr = sample_stderr, queries = sample_queries\<rparr>"

section \<open>Properties of the string helpers\<close>

lemma split_on_nonempty: "split_on sep s \<noteq> []"
  by (induction s) (auto split: list.splits)

lemma str_contains_iff: "str_contains p s \<longleftrightarrow> (\<exists>pre post. s = pre @ p @ post)"
proof (induction s)
  case Nil
  then show ?case by auto
next
  case (Cons c cs)
  have "startswith (c # cs) p \<longleftrightarrow> (\<exists>post. c # cs = p @ post)"
    unfolding startswith_def
    by (metis append_eq_conv_conj append_take_drop_id)
  moreover have "(\<exists>pre post. c # cs = pre @ p @ post) \<longleftrightarrow>
                 (\<exists>post. c # cs = p @ post) \<or> (\<exists>pre post. cs = pre @ p @ post)"
  proof
    assume "\<exists>pre post. c # cs = pre @ p @ post"
    then obtain pre post where e: "c # cs = pre @ p @ post" by blast
    show "(\<exists>post. c # cs = p @ post) \<or> (\<exists>pre post. cs = pre @ p @ post)"
    proof (cases pre)
      case Nil
      with e show ?thesis by auto
    next
      case (Cons a pre')
      with e have "cs = pre' @ p @ post" by simp
      then show ?thesis by blast
    qed
  next
    assume "(\<exists>post. c # cs = p @ post) \<or> (\<exists>pre post. cs = pre @ p @ post)"
    then show "\<exists>pre post. c # cs = pre @ p @ post"
    proof
      assume "\<exists>post. c # cs = p @ post"
      then obtain post where "c # cs = [] @ p @ post" by auto
      then show ?thesis by blast
    next
      assume "\<exists>pre post. cs = pre @ p @ post"
      then obtain pre post where "c # cs = (c # pre) @ p @ post" by auto
      then show ?thesis by blast
    qed
  qed
  ultimately show ?case using Cons.IH by simp
qed

lemma hd_split_on: "hd (split_on sep s) = takeWhile (\<lambda>c. c \<noteq> sep) s"
  by (induction s) (auto split: list.splits simp: split_on_nonempty)

lemma split_on_no_sep: "sep \<notin> set s \<Longrightarrow> split_on sep s = [s]"
  by (induction s) auto

lemma length_split_on: "length (split_on sep s) = Suc (length (filter (\<lambda>c. c = sep) s))"
  by (induction s) (auto split: list.splits)

lemma last_split_on_append:
  "last (split_on sep (xs @ sep # ys)) = last (split_on sep ys)"
proof (induction xs)
  case Nil
  then show ?case by (simp add: split_on_nonempty)
next
  case (Cons c xs)
  show ?case
  proof (cases "c = sep")
    case True
    then show ?thesis using Cons.IH by (simp add: split_on_nonempty)
  next
    case False
    obtain seg segs where sp: "split_on sep (xs @ sep # ys) = seg # segs"
      using split_on_nonempty [of sep "xs @ sep # ys"]
      by (cases "split_on sep (xs @ sep # ys)") auto
    have "length (split_on sep (xs @ sep # ys)) \<ge> 2"
      by (simp add: length_split_on)
    with sp have "segs \<noteq> []" by auto
    with False sp Cons.IH show ?thesis by simp
  qed
qed

lemma last_split_on:
  "last (split_on sep s) = rev (takeWhile (\<lambda>c. c \<noteq> sep) (rev s))"
proof (cases "sep \<in> set s")
  case False
  then have tw: "takeWhile (\<lambda>c. c \<noteq> sep) (rev s) = rev s" by auto
  show ?thesis by (subst tw) (simp add: split_on_no_sep False)
next
  case True
  then obtain xs ys where s: "s = xs @ sep # ys" and ys: "sep \<notin> set ys"
    by (meson split_list_last)
  from ys have "takeWhile (\<lambda>c. c \<noteq> sep) (rev ys @ sep # rev xs) = rev ys"
    by (simp add: takeWhile_append)
  with s ys show ?thesis
    by (simp add: last_split_on_append split_on_no_sep)
qed

section \<open>Properties of the Python helpers\<close>

lemma str_nat_nonempty: "str_nat n \<noteq> []"
  by (subst str_nat.simps) simp

lemma str_int_nonempty: "str_int i \<noteq> []"
  by (simp add: str_int_def str_nat_nonempty)
lemma bindE_Inr_iff: "bindE m f = Inr y \<longleftrightarrow> (\<exists>x. m = Inr x \<and> f x = Inr y)"
  by (cases m) (simp_all add: bindE_def)

lemma mapE_Inr:
  "mapE f xs = Inr ys \<Longrightarrow> length ys = length xs \<and> (\<forall>i<length xs. f (xs ! i) = Inr (ys ! i))"
proof (induction xs arbitrary: ys)
  case Nil
  then show ?case by simp
next
  case (Cons x xs)
  from Cons.prems obtain y ys' where y: "f x = Inr y" and m: "mapE f xs = Inr ys'"
    and ys: "ys = y # ys'"
    by (auto simp: bindE_Inr_iff)
  from Cons.IH [OF m] y ys show ?case
    by (auto simp: nth_Cons split: nat.splits)
qed





lemma py_keys_Inr: "py_keys v = Inr ks \<Longrightarrow> \<exists>d. v = PDict d \<and> ks = dict_keys d"
  by (cases v) auto


lemma export_table_Inr:
  assumes "export_table R first pages = Inr (all_columns, rows)"
  shows "\<exists>first_props.
           py_get first ''properties'' (PDict []) = Inr (PDict first_props)
         \<and> all_columns = sort (dict_keys first_props) @ [''_notion_id'', ''_last_edited'']
         \<and> mapE (build_row R (sort (dict_keys first_props))) pages = Inr rows"
proof -
  from assms obtain fp ks where fp: "py_get first ''properties'' (PDict []) = Inr fp"
    and ks: "py_keys fp = Inr ks"
    and rest: "bindE (mapE (build_row R (sort ks)) pages)
                 (\<lambda>rows. Inr (sort ks @ [''_notion_id'', ''_last_edited''], rows))
               = Inr (all_columns, rows)"
    by (auto simp: export_table_def bindE_Inr_iff Let_def)
  from ks obtain d where d: "fp = PDict d" "ks = dict_keys d"
    using py_keys_Inr by blast
  from rest have "mapE (build_row R (sort ks)) pages = Inr rows"
    and "all_columns = sort ks @ [''_notion_id'', ''_last_edited'']"
    by (auto simp: bindE_Inr_iff)
  with fp d show ?thesis by auto
qed


section \<open>Properties of the fetch loop\<close>

lemma query_step_answer:
  assumes "notion (log @ [\<lparr>database_id = db_id, page_size = 100,
                           start_cursor = cursor_kwarg c\<rparr>]) = Inr (PDict r)"
    and "py_iter (dict_get r ''results'' (PList [])) = Inr its"
  shows "query_step notion db_id acc c log =
           (Inr (acc @ its,
                 if truthy (dict_get r ''has_more'' PNone)
                 then Some (dict_get r ''next_cursor'' PNone) else None),
            log @ [\<lparr>database_id = db_id, page_size = 100, start_cursor = cursor_kwarg c\<rparr>])"
  using assms by (simp add: query_step_def Let_def bindE_def)

lemma query_loop_run:
  assumes "rs \<noteq> []" and "length reqs = length rs" and "length items = length rs"
    and "\<forall>k<length rs. reqs ! k =
           \<lparr>database_id = db_id, page_size = 100,
            start_cursor = cursor_kwarg
              (if k = 0 then c else dict_get (rs ! (k - 1)) ''next_cursor'' PNone)\<rparr>"
    and "\<forall>k<length rs. notion (log @ take (Suc k) reqs) = Inr (PDict (rs ! k))"
    and "\<forall>k<length rs. py_iter (dict_get (rs ! k) ''results'' (PList [])) = Inr (items ! k)"
    and "\<forall>k<length rs. truthy (dict_get (rs ! k) ''has_more'' PNone) \<longleftrightarrow> Suc k < length rs"
  shows "query_loop notion db_id acc c log = Some (Inr (acc @ concat items), log @ reqs)"
  using assms
proof (induction rs arbitrary: reqs items acc c log)
  case Nil
  then show ?case by simp
next
  case (Cons r rs)
  from Cons.prems(2) obtain q qs where reqs: "reqs = q # qs" and lq: "length qs = length rs"
    by (cases reqs) auto
  from Cons.prems(3) obtain it its where items: "items = it # its" and li: "length its = length rs"
    by (cases items) auto
  from Cons.prems(4) [rule_format, of 0]
  have q: "q = \<lparr>database_id = db_id, page_size = 100, start_cursor = cursor_kwarg c\<rparr>"
    by (simp add: reqs)
  from Cons.prems(5) [rule_format, of 0] have ans: "notion (log @ [q]) = Inr (PDict r)"
    by (simp add: reqs)
  from Cons.prems(6) [rule_format, of 0]
  have it: "py_iter (dict_get r ''results'' (PList [])) = Inr it"
    by (simp add: items)
  from Cons.prems(7) [rule_format, of 0]
  have more: "truthy (dict_get r ''has_more'' PNone) \<longleftrightarrow> rs \<noteq> []"
    by simp
  have step: "query_step notion db_id acc c log =
       (Inr (acc @ it, if rs \<noteq> [] then Some (dict_get r ''next_cursor'' PNone) else None),
        log @ [q])"
    using query_step_answer [of notion log db_id c r it acc] ans it more by (simp add: q)
  show ?case
  proof (cases "rs = []")
    case True
    with lq li have "qs = []" "its = []" by auto
    with True step show ?thesis
      by (subst query_loop.simps) (simp add: reqs items)
  next
    case False
    let ?c = "dict_get r ''next_cursor'' PNone"
    have a: "\<forall>k<length rs. qs ! k =
           \<lparr>database_id = db_id, page_size = 100,
            start_cursor = cursor_kwarg
              (if k = 0 then ?c else dict_get (rs ! (k - 1)) ''next_cursor'' PNone)\<rparr>"
    proof (intro allI impI)
      fix k assume k: "k < length rs"
      from Cons.prems(4) [rule_format, of "Suc k"] k
      show "qs ! k = \<lparr>database_id = db_id, page_size = 100,
            start_cursor = cursor_kwarg
              (if k = 0 then ?c else dict_get (rs ! (k - 1)) ''next_cursor'' PNone)\<rparr>"
        by (cases k) (simp_all add: reqs)
    qed
    have b: "\<forall>k<length rs. notion ((log @ [q]) @ take (Suc k) qs) = Inr (PDict (rs ! k))"
    proof (intro allI impI)
      fix k assume k: "k < length rs"
      from Cons.prems(5) [rule_format, of "Suc k"] k
      show "notion ((log @ [q]) @ take (Suc k) qs) = Inr (PDict (rs ! k))"
        by (simp add: reqs)
    qed
    have c: "\<forall>k<length rs. py_iter (dict_get (rs ! k) ''results'' (PList [])) = Inr (its ! k)"
    proof (intro allI impI)
      fix k assume k: "k < length rs"
      from Cons.prems(6) [rule_format, of "Suc k"] k
      show "py_iter (dict_get (rs ! k) ''results'' (PList [])) = Inr (its ! k)"
        by (simp add: items)
    qed
    have d: "\<forall>k<length rs. truthy (dict_get (rs ! k) ''has_more'' PNone) \<longleftrightarrow> Suc k < length rs"
    proof (intro allI impI)
      fix k assume k: "k < length rs"
      from Cons.prems(7) [rule_format, of "Suc k"] k
      show "truthy (dict_get (rs ! k) ''has_more'' PNone) \<longleftrightarrow> Suc k < length rs"
        by simp
    qed
    from Cons.IH [OF False lq li a b c d, of "acc @ it"]
    have "query_loop notion db_id (acc @ it) ?c (log @ [q])
            = Some (Inr ((acc @ it) @ concat its), (log @ [q]) @ qs)" .
    with False step show ?thesis
      by (subst query_loop.simps) (simp add: reqs items)
  qed
qed

text \<open>A service that always announces more data keeps the loop running for ever.\<close>

lemma query_loop_never_ends:
  assumes "\<forall>log. \<exists>r its. notion log = Inr (PDict r)
             \<and> py_iter (dict_get r ''results'' (PList [])) = Inr its
             \<and> truthy (dict_get r ''has_more'' PNone)"
  shows "query_loop notion db_id pages cursor log = None"
proof (cases "query_loop notion db_id pages cursor log")
  case None
  then show ?thesis .
next
  case (Some y)
  have "(\<forall>log. \<exists>r its. notion log = Inr (PDict r)
             \<and> py_iter (dict_get r ''results'' (PList [])) = Inr its
             \<and> truthy (dict_get r ''has_more'' PNone)) \<longrightarrow> False"
  proof (rule query_loop.raw_induct
           [where P = "\<lambda>n d p c l y.
              (\<forall>log. \<exists>r its. n log = Inr (PDict r)
                 \<and> py_iter (dict_get r ''results'' (PList [])) = Inr its
                 \<and> truthy (dict_get r ''has_more'' PNone)) \<longrightarrow> False", OF _ Some])
    fix loop :: "service \<Rightarrow> string \<Rightarrow> pyval list \<Rightarrow> pyval \<Rightarrow> request list
                   \<Rightarrow> ((error + pyval list) \<times> request list) option"
    fix n d p c l y
    assume IH: "\<And>n d p c l y. loop n d p c l = Some y \<Longrightarrow>
                  (\<forall>log. \<exists>r its. n log = Inr (PDict r)
                     \<and> py_iter (dict_get r ''results'' (PList [])) = Inr its
                     \<and> truthy (dict_get r ''has_more'' PNone)) \<longrightarrow> False"
      and step: "(case query_step n d p c l of
                    (Inl e, log') \<Rightarrow> Some (Inl e, log')
                  | (Inr (pages', None), log') \<Rightarrow> Some (Inr pages', log')
                  | (Inr (pages', Some c), log') \<Rightarrow> loop n d pages' c log') = Some y"
    show "(\<forall>log. \<exists>r its. n log = Inr (PDict r)
             \<and> py_iter (dict_get r ''results'' (PList [])) = Inr its
             \<and> truthy (dict_get r ''has_more'' PNone)) \<longrightarrow> False"
    proof
      assume good: "\<forall>log. \<exists>r its. n log = Inr (PDict r)
             \<and> py_iter (dict_get r ''results'' (PList [])) = Inr its
             \<and> truthy (dict_get r ''has_more'' PNone)"
      let ?q = "\<lparr>database_id = d, page_size = 100, start_cursor = cursor_kwarg c\<rparr>"
      from good obtain r its where r: "n (l @ [?q]) = Inr (PDict r)"
        and its: "py_iter (dict_get r ''results'' (PList [])) = Inr its"
        and more: "truthy (dict_get r ''has_more'' PNone)"
        by blast
      from query_step_answer [of n l d c r its p] r its more
      have "query_step n d p c l
              = (Inr (p @ its, Some (dict_get r ''next_cursor'' PNone)), l @ [?q])"
        by simp
      with step have "loop n d (p @ its) (dict_get r ''next_cursor'' PNone) (l @ [?q]) = Some y"
        by simp
      from IH [OF this] good show False by blast
    qed
  qed
  with assms show ?thesis by blast
qed

section \<open>Properties of the exporter\<close>


lemma export_table_rows:
  assumes "export_table R first pages = Inr (all_columns, rows)"
  shows "length rows = length pages"
  using export_table_Inr [OF assms] mapE_Inr by blast

lemma print_out_fields [simp]:
  "files (print_out s w) = files w" "dirs (print_out s w) = dirs w"
  "queries (print_out s w) = queries w" "stderr (print_out s w) = stderr w"
  "stdout (print_out s w) = stdout w @ [Line s]"
  by (simp_all add: print_out_def)

lemma print_err_fields [simp]:
  "files (print_err s w) = files w" "dirs (print_err s w) = dirs w"
  "queries (print_err s w) = queries w" "stdout (print_err s w) = stdout w"
  "stderr (print_err s w) = stderr w @ [s]"
  by (simp_all add: print_err_def)

lemma print_json_fields [simp]:
  "files (print_json v w) = files w" "dirs (print_json v w) = dirs w"
  "queries (print_json v w) = queries w" "stderr (print_json v w) = stderr w"
  "stdout (print_json v w) = stdout w @ [JsonText v]"
  by (simp_all add: print_json_def)

lemma announce_export_fields [simp]:
  "files (announce_export R k i w) = files w" "dirs (announce_export R k i w) = dirs w"
  "queries (announce_export R k i w) = queries w"
  "stderr (announce_export R k i w) = stderr w"
  by (simp_all add: announce_export_def)

lemma export_database_resolved:
  assumes "py_subscript db_config ''key'' = Inr db_key"
    and "bindE (py_get db_config ''notion_url'' (PStr [])) extract_notion_id_py
           = Inr (Some db_id)"
    and "db_id \<noteq> []"
  shows "export_database R notion db_config output_dir dry w =
           (case query_all_pages notion db_id (queries w) of
              None \<Rightarrow> None
            | Some (Inl e, log) \<Rightarrow>
                Some (Inl e, (announce_export R db_key db_id w)\<lparr>queries := log\<rparr>)
            | Some (Inr pages, log) \<Rightarrow>
                Some (export_pages R db_key output_dir dry pages
                        ((announce_export R db_key db_id w)\<lparr>queries := log\<rparr>)))"
  using assms by (simp add: export_database_def Let_def)

lemma placeholder_export:
  assumes "startswith ref ''TODO:''"
    and "py_get db_config ''notion_url'' (PStr []) = Inr (PStr ref)"
  shows "export_database R notion db_config output_dir dry w
           = (case py_subscript db_config ''key'' of
                Inl e \<Rightarrow> Some (Inl KeyError, w)
              | Inr db_key \<Rightarrow> Some (skip_database R db_key w))"
proof -
  have n: "extract_notion_id ref = None"
    using assms(1) by (simp add: extract_notion_id_def)
  from assms(2) obtain d where d: "db_config = PDict d"
    by (cases db_config) auto
  show ?thesis
    using assms(2) n unfolding d
    by (simp add: export_database_def bindE_def extract_notion_id_py_def split: option.splits)
qed

lemma export_database_item_shape:
  assumes "export_database R notion db_config output_dir dry w = Some (Inr item, w')"
    and "item \<noteq> PNone"
  shows "\<exists>db_key db_id pages log n_columns.
           py_subscript db_config ''key'' = Inr db_key
         \<and> query_all_pages notion db_id (queries w) = Some (Inr pages, log)
         \<and> item = PDict
             (if pages = []
              then [(''db_key'', db_key),
                    (''output'', PStr (''data/'' @ py_str R db_key @ ''.csv'')),
                    (''row_count'', PInt 0)]
              else [(''db_key'', db_key),
                    (''output'', PStr (''data/'' @ py_str R db_key @ ''.csv'')),
                    (''row_count'', PInt (int (length pages))),
                    (''columns'', PInt n_columns)])"
proof -
  from assms obtain db_key where k: "py_subscript db_config ''key'' = Inr db_key"
    by (auto simp: export_database_def split: sum.splits)
  from assms k obtain db_id where
    i: "bindE (py_get db_config ''notion_url'' (PStr [])) extract_notion_id_py = Inr (Some db_id)"
    and ne: "db_id \<noteq> []"
    by (auto simp: export_database_def skip_database_def split: sum.splits option.splits if_splits)
  from assms(1) have "(case query_all_pages notion db_id (queries w) of
            None \<Rightarrow> None
          | Some (Inl e, log) \<Rightarrow> Some (Inl e, (announce_export R db_key db_id w)\<lparr>queries := log\<rparr>)
          | Some (Inr pages, log) \<Rightarrow>
              Some (export_pages R db_key output_dir dry pages
                      ((announce_export R db_key db_id w)\<lparr>queries := log\<rparr>)))
         = Some (Inr item, w')"
    by (simp add: export_database_resolved [OF k i ne])
  then obtain pages log where
    f: "query_all_pages notion db_id (queries w) = Some (Inr pages, log)"
    and e: "export_pages R db_key output_dir dry pages
              ((announce_export R db_key db_id w)\<lparr>queries := log\<rparr>) = (Inr item, w')"
    by (auto split: option.splits sum.splits prod.splits)
  show ?thesis
  proof (cases pages)
    case Nil
    with e have "item = PDict [(''db_key'', db_key),
                    (''output'', PStr (''data/'' @ py_str R db_key @ ''.csv'')),
                    (''row_count'', PInt 0)]"
      by (auto simp: export_pages_def Let_def)
    with k f Nil show ?thesis
      by (intro exI [of _ db_key] exI [of _ db_id] exI [of _ pages] exI [of _ log]) simp
  next
    case (Cons first rest)
    with e obtain all_columns rows where
      t: "export_table R first pages = Inr (all_columns, rows)"
      and it: "item = PDict [(''db_key'', db_key),
                    (''output'', PStr (''data/'' @ py_str R db_key @ ''.csv'')),
                    (''row_count'', PInt (int (length rows))),
                    (''columns'', PInt (int (length all_columns)))]"
      by (auto simp: export_pages_def Let_def split: sum.splits)
    from export_table_rows [OF t] it have "item = PDict [(''db_key'', db_key),
                    (''output'', PStr (''data/'' @ py_str R db_key @ ''.csv'')),
                    (''row_count'', PInt (int (length pages))),
                    (''columns'', PInt (int (length all_columns)))]"
      by simp
    with k f Cons show ?thesis
      by (intro exI [of _ db_key] exI [of _ db_id] exI [of _ pages] exI [of _ log]
                exI [of _ "int (length all_columns)"]) simp
  qed
qed

lemma export_database_row_count:
  assumes "export_database R notion db_config output_dir dry w = Some (Inr item, w')"
  shows "item = PNone \<or> (\<exists>d n. item = PDict d \<and> map_of d ''row_count'' = Some (PInt n))"
proof (cases "item = PNone")
  case True
  then show ?thesis by simp
next
  case False
  from export_database_item_shape [OF assms False] obtain d where
    "item = PDict d" "\<exists>n. map_of d ''row_count'' = Some (PInt n)"
    by (auto split: if_splits)
  then show ?thesis by blast
qed

lemma export_each_items:
  assumes "export_each R notion output_dir dry dbs items0 w = Some (Inr manifest_items, w')"
    and "\<forall>i\<in>set items0. \<exists>d n. i = PDict d \<and> map_of d ''row_count'' = Some (PInt n)"
  shows "\<forall>i\<in>set manifest_items. \<exists>d n. i = PDict d \<and> map_of d ''row_count'' = Some (PInt n)"
  using assms
proof (induction dbs arbitrary: items0 w)
  case Nil
  then show ?case by simp
next
  case (Cons db dbs)
  from Cons.prems(1) obtain result w1 where
    e: "export_database R notion db output_dir dry w = Some (Inr result, w1)"
    and r: "export_each R notion output_dir dry dbs
              (if truthy result then items0 @ [result] else items0) w1
            = Some (Inr manifest_items, w')"
    by (auto split: option.splits sum.splits prod.splits)
  from export_database_row_count [OF e] Cons.prems(2)
  have "\<forall>i\<in>set (if truthy result then items0 @ [result] else items0).
          \<exists>d n. i = PDict d \<and> map_of d ''row_count'' = Some (PInt n)"
    by auto
  from Cons.IH [OF r this] show ?case .
qed

section \<open>Properties of the flattener\<close>

lemma flatten_formula:
  assumes "map_of p ''type'' = Some (PStr ''formula'')"
    and "map_of p ''formula'' = Some (PDict f)"
    and "map_of f ''type'' = Some (PStr tag)"
  shows "flatten_property R (PDict p) = Inr (PStr (py_str R (dict_get f tag (PStr []))))"
  using assms by (simp add: flatten_property_def bindE_def dict_get_def)

lemma flatten_rollup:
  assumes "map_of p ''type'' = Some (PStr ''rollup'')"
    and "map_of p ''rollup'' = Some (PDict f)"
    and "map_of f ''type'' = Some (PStr tag)" and "tag \<noteq> ''array''"
  shows "flatten_property R (PDict p) = Inr (PStr (py_str R (dict_get f tag (PStr []))))"
  using assms by (simp add: flatten_property_def bindE_def dict_get_def)

section \<open>Frame lemmas\<close>

lemma keeps_fs_liftE [intro!]: "keeps_fs (liftE r)"
  by (simp add: keeps_fs_def liftE_def)

lemma keeps_fs_effect:
  "(\<And>w. files (f w) = files w \<and> dirs (f w) = dirs w) \<Longrightarrow> keeps_fs (effect f)"
  by (simp add: keeps_fs_def effect_def)

lemma keeps_fs_print_out [intro!]: "keeps_fs (effect (print_out s))"
  by (rule keeps_fs_effect) simp

lemma keeps_fs_print_json [intro!]: "keeps_fs (effect (print_json v))"
  by (rule keeps_fs_effect) simp

lemma keeps_fs_bindS [intro!]:
  assumes "keeps_fs m" and "\<And>x. keeps_fs (f x)"
  shows "keeps_fs (bindS m f)"
  unfolding keeps_fs_def
proof (intro allI)
  fix w
  show "files (snd (bindS m f w)) = files w \<and> dirs (snd (bindS m f w)) = dirs w"
  proof (cases "m w")
    case (Pair r w1)
    from assms(1) Pair have w1: "files w1 = files w \<and> dirs w1 = dirs w"
      unfolding keeps_fs_def by (metis snd_conv)
    show ?thesis
    proof (cases r)
      case (Inl e)
      with Pair w1 show ?thesis by (simp add: bindS_def)
    next
      case (Inr x)
      from assms(2) [of x] have "files (snd (f x w1)) = files w1 \<and> dirs (snd (f x w1)) = dirs w1"
        unfolding keeps_fs_def by blast
      with Pair Inr w1 show ?thesis by (simp add: bindS_def)
    qed
  qed
qed

lemma keeps_fs_if [intro!]:
  "keeps_fs m \<Longrightarrow> keeps_fs n \<Longrightarrow> keeps_fs (if c then m else n)"
  by simp

lemma keeps_fs_load [intro!]: "keeps_fs (load_yaml_config yaml path)"
  by (simp add: keeps_fs_def load_yaml_config_def split: yaml_result.splits)

lemma keeps_fs_unknown_bundle [intro!]: "keeps_fs (unknown_bundle a bundles)"
  by (simp add: keeps_fs_def unknown_bundle_def Let_def split: sum.splits)

lemma keeps_fs_read_token [intro!]: "keeps_fs (read_token E)"
  by (simp add: keeps_fs_def read_token_def)

lemma keeps_fs_banner [intro!]: "keeps_fs (print_banner E a bundle_cfg output_dir)"
  unfolding print_banner_def
  by (intro keeps_fs_bindS keeps_fs_liftE keeps_fs_print_out keeps_fs_effect) simp

lemma keeps_fs_main_setup: "keeps_fs (main_setup E a)"
  unfolding main_setup_def
  by (intro keeps_fs_bindS keeps_fs_liftE keeps_fs_load keeps_fs_if keeps_fs_unknown_bundle
            keeps_fs_banner keeps_fs_read_token)

lemma keeps_fs_write_manifest_dry:
  "args_dry_run a \<Longrightarrow> keeps_fs (write_manifest a output_dir manifest_filename manifest)"
  unfolding write_manifest_def
  by (simp only: if_True)
     (intro keeps_fs_bindS keeps_fs_liftE keeps_fs_print_out keeps_fs_print_json)

lemma keeps_fs_main_finish_dry:
  "args_dry_run a \<Longrightarrow> keeps_fs (main_finish E a bundle_cfg defaults output_dir manifest_items)"
  unfolding main_finish_def
  by (intro keeps_fs_bindS keeps_fs_liftE keeps_fs_print_out keeps_fs_write_manifest_dry)

lemma export_pages_dry:
  "export_pages R db_key output_dir True pages w = (r, w') \<Longrightarrow>
     files w' = files w \<and> dirs w' = dirs w"
  by (auto simp: export_pages_def Let_def split: list.splits sum.splits)

lemma export_database_dry:
  assumes "export_database R notion db_config output_dir True w = Some (r, w')"
  shows "files w' = files w \<and> dirs w' = dirs w"
proof (cases "py_subscript db_config ''key''")
  case (Inl e)
  with assms show ?thesis by (simp add: export_database_def)
next
  case (Inr db_key)
  note k = this
  show ?thesis
  proof (cases "bindE (py_get db_config ''notion_url'' (PStr [])) extract_notion_id_py")
    case (Inl e)
    with assms k show ?thesis by (simp add: export_database_def)
  next
    case (Inr db_id_opt)
    show ?thesis
    proof (cases "db_id_opt = None \<or> db_id_opt = Some []")
      case True
      with assms k Inr have "skip_database R db_key w = (r, w')"
        by (auto simp: export_database_def)
      then show ?thesis by (auto simp: skip_database_def)
    next
      case False
      then obtain db_id where i: "db_id_opt = Some db_id" and ne: "db_id \<noteq> []"
        by (cases db_id_opt) auto
      from assms [unfolded export_database_resolved [OF k Inr [unfolded i] ne]]
      show ?thesis
        by (auto split: option.splits sum.splits prod.splits dest: export_pages_dry)
    qed
  qed
qed

lemma export_each_dry:
  "export_each R notion output_dir True dbs items w = Some (r, w') \<Longrightarrow>
     files w' = files w \<and> dirs w' = dirs w"
proof (induction dbs arbitrary: items w)
  case Nil
  then show ?case by simp
next
  case (Cons db dbs)
  from Cons.prems obtain r1 w1 where
    e: "export_database R notion db output_dir True w = Some (r1, w1)"
    by (cases "export_database R notion db output_dir True w") auto
  note fs = export_database_dry [OF e]
  show ?case
  proof (cases r1)
    case (Inl err)
    with Cons.prems e fs show ?thesis by simp
  next
    case (Inr result)
    with Cons.prems e have "export_each R notion output_dir True dbs
        (if truthy result then items @ [result] else items) w1 = Some (r, w')"
      by simp
    from Cons.IH [OF this] fs show ?thesis by simp
  qed
qed

section \<open>Properties of the manifest\<close>

lemma bindS_Inr:
  "bindS m f w = (Inr y, w') \<longleftrightarrow> (\<exists>x w1. m w = (Inr x, w1) \<and> f x w1 = (Inr y, w'))"
  by (cases "m w") (auto simp: bindS_def split: sum.splits)

lemma liftE_eq: "liftE r w = (r', w') \<longleftrightarrow> r' = r \<and> w' = w"
  by (auto simp: liftE_def)

lemma effect_eq: "effect f w = (r, w') \<longleftrightarrow> r = Inr () \<and> w' = f w"
  by (auto simp: effect_def)




lemma write_manifest_Inr:
  assumes "write_manifest a output_dir manifest_filename manifest w = (Inr (), w')"
  shows "if args_dry_run a
         then JsonText manifest \<in> set (stdout w')
         else (\<exists>name. map_of (files w') (output_dir @ name) = Some (JsonFile manifest))"
proof (cases "args_dry_run a")
  case True
  with assms have "JsonText manifest \<in> set (stdout w')"
    by (auto simp: write_manifest_def bindS_Inr liftE_eq effect_eq)
  with True show ?thesis by simp
next
  case False
  with assms obtain name where "files w' = AList.update (output_dir @ name) (JsonFile manifest)
      (files (mkdir_parents output_dir w))"
    by (auto simp: write_manifest_def bindS_Inr liftE_eq effect_eq write_file_def)
  then have "map_of (files w') (output_dir @ name) = Some (JsonFile manifest)"
    by (simp add: update_conv')
  with False show ?thesis by auto
qed

lemma main_finish_Inr:
  assumes "main_finish E a bundle_cfg defaults output_dir manifest_items w = (Inr (), w')"
  shows "\<exists>manifest.
           build_manifest E a bundle_cfg manifest_items = Inr manifest
         \<and> (if args_dry_run a
            then JsonText manifest \<in> set (stdout w')
            else (\<exists>name. map_of (files w') (output_dir @ name) = Some (JsonFile manifest)))"
proof -
  from assms [unfolded main_finish_def bindS_Inr liftE_eq effect_eq]
  obtain manifest manifest_filename u w1 s where
    m: "Inr manifest = build_manifest E a bundle_cfg manifest_items"
    and wm': "write_manifest a output_dir manifest_filename manifest w = (Inr u, w1)"
    and w': "w' = print_out s w1"
    by (elim exE conjE) (hypsubst, rule that, assumption+)
  from wm' have wm: "write_manifest a output_dir manifest_filename manifest w = (Inr (), w1)"
    by simp
  note m = m [symmetric]
  from write_manifest_Inr [OF wm] w' have "if args_dry_run a
            then JsonText manifest \<in> set (stdout w')
            else (\<exists>name. map_of (files w') (output_dir @ name) = Some (JsonFile manifest))"
    by (auto split: if_splits)
  with m show ?thesis by blast
qed

lemma sum_ints_map_PInt: "sum_ints (map PInt ns) = Inr (sum_list ns)"
  by (induction ns) (simp_all add: bindE_def)

lemma mapE_row_counts:
  assumes "\<forall>i\<in>set manifest_items. \<exists>d n. i = PDict d \<and> map_of d ''row_count'' = Some (PInt n)"
  shows "\<exists>ns. mapE (\<lambda>i. py_get i ''row_count'' (PInt 0)) manifest_items = Inr (map PInt ns)"
  using assms
proof (induction manifest_items)
  case Nil
  then show ?case by simp
next
  case (Cons i manifest_items)
  from Cons.prems obtain d n where i: "i = PDict d" "map_of d ''row_count'' = Some (PInt n)"
    by auto
  from Cons obtain ns where
    "mapE (\<lambda>i. py_get i ''row_count'' (PInt 0)) manifest_items = Inr (map PInt ns)"
    by auto
  with i have "mapE (\<lambda>i. py_get i ''row_count'' (PInt 0)) (i # manifest_items)
                 = Inr (map PInt (n # ns))"
    by (simp add: bindE_def dict_get_def)
  then show ?case by blast
qed

lemma build_manifest_defined:
  assumes "\<forall>i\<in>set manifest_items. \<exists>d n. i = PDict d \<and> map_of d ''row_count'' = Some (PInt n)"
  shows "\<exists>manifest. build_manifest E a (PDict bundle_cfg) manifest_items = Inr manifest"
proof -
  from mapE_row_counts [OF assms] obtain ns where
    "mapE (\<lambda>i. py_get i ''row_count'' (PInt 0)) manifest_items = Inr (map PInt ns)"
    by blast
  then show ?thesis
    by (simp add: build_manifest_def bindE_def sum_ints_map_PInt)
qed

section \<open>The sample runs\<close>

lemma empty_service_fetch:
  "query_all_pages empty_service db_id log
     = Some (Inr [], log @ [\<lparr>database_id = db_id, page_size = 100, start_cursor = None\<rparr>])"
  unfolding query_all_pages_def
  by (subst query_loop.simps)
     (simp add: query_step_def empty_service_def cursor_kwarg_def bindE_def dict_get_def Let_def)

lemma three_record_fetch:
  "query_all_pages three_record_service db_id log
     = Some (Inr three_records,
             log @ [\<lparr>database_id = db_id, page_size = 100, start_cursor = None\<rparr>])"
  unfolding query_all_pages_def
  by (subst query_loop.simps)
     (simp add: query_step_def three_record_service_def cursor_kwarg_def bindE_def
                dict_get_def Let_def)

lemma services_db_export:
  "export_database sample_render three_record_service services_db output_dir dry w
     = Some (export_pages sample_render (PStr ''services'') output_dir dry three_records
               ((announce_export sample_render (PStr ''services'')
                   ''0123456789abcdef0123456789abcdef'' w)
                \<lparr>queries := queries w
                   @ [\<lparr>database_id = ''0123456789abcdef0123456789abcdef'', page_size = 100,
                       start_cursor = None\<rparr>]\<rparr>))"
proof -
  have k: "py_subscript services_db ''key'' = Inr (PStr ''services'')"
    by (simp add: services_db_def)
  have i: "bindE (py_get services_db ''notion_url'' (PStr [])) extract_notion_id_py
             = Inr (Some ''0123456789abcdef0123456789abcdef'')"
    by code_simp
  have ne: "''0123456789abcdef0123456789abcdef'' \<noteq> []" by simp
  show ?thesis
    unfolding export_database_resolved [OF k i ne] three_record_fetch by simp
qed


lemma placeholder_db_export:
  "export_database R notion placeholder_db output_dir dry w
     = Some (skip_database R (PStr ''pending'') w)"
proof -
  have a: "startswith ''TODO: create the database'' ''TODO:''"
    by (simp add: startswith_def)
  have b: "py_get placeholder_db ''notion_url'' (PStr []) = Inr (PStr ''TODO: create the database'')"
    by (simp add: placeholder_db_def dict_get_def)
  have k: "py_subscript placeholder_db ''key'' = Inr (PStr ''pending'')"
    by (simp add: placeholder_db_def)
  show ?thesis
    unfolding placeholder_export [OF a b] k by simp
qed


lemma sample_run_dry:
  "main sample_env (sample_args True) empty_world = Some (Inr (), dry_run_world)"
proof -
  let ?od = "[''packages'', ''core'']"
  let ?defaults = "PDict [(''output_root'', PStr ''packages'')]"
  let ?q = "\<lparr>database_id = ''0123456789abcdef0123456789abcdef'', page_size = 100,
             start_cursor = None\<rparr>"
  define w1 where "w1 = snd (main_setup sample_env (sample_args True) empty_world)"
  define w2 where "w2 = snd (skip_database sample_render (PStr ''pending'') w1)"
  define w3 where
    "w3 = (announce_export sample_render (PStr ''services'')
             ''0123456789abcdef0123456789abcdef'' w2)\<lparr>queries := queries w2 @ [?q]\<rparr>"
  define w4 where
    "w4 = snd (export_pages sample_render (PStr ''services'') ?od True three_records w3)"
  have s: "main_setup sample_env (sample_args True) empty_world
             = (Inr (core_bundle, ?defaults, ?od, [placeholder_db, services_db]), w1)"
    unfolding w1_def by code_simp
  have k: "skip_database sample_render (PStr ''pending'') w1 = (Inr PNone, w2)"
    by (simp add: w2_def skip_database_def)
  have p: "export_pages sample_render (PStr ''services'') ?od True three_records w3
             = (Inr services_item, w4)"
    unfolding w4_def w3_def w2_def w1_def by code_simp
  have t: "truthy services_item" by (simp add: services_item_def)
  have x: "export_each sample_render three_record_service ?od True
             [placeholder_db, services_db] [] w1 = Some (Inr [services_item], w4)"
    by (simp add: placeholder_db_export services_db_export k p [unfolded w3_def] t)
  have f: "main_finish sample_env (sample_args True) core_bundle ?defaults ?od
             [services_item] w4 = (Inr (), dry_run_world)"
    unfolding w4_def w3_def w2_def w1_def by code_simp
  have e: "py_render sample_env = sample_render"
    "notion_client sample_env = three_record_service"
    "args_dry_run (sample_args True) = True"
    by (simp_all add: sample_env_def sample_args_def)
  show ?thesis
    unfolding main_def s e
    by (simp only: prod.case sum.case option.case x f)
qed

section \<open>Claims about the exported table\<close>




section \<open>Claims about placeholders\<close>

text \<open>
  C2. For every database reference string beginning with the placeholder marker
  \<open>TODO:\<close>, the resolver returns the not-resolvable signal, and the exporter for
  that database issues no query: it ends with the skip result, or with \<open>KeyError\<close>
  when the database's configuration has no key, and the queries, files and directories
  are those of before. The loop of the run then goes on to the next database with the
  manifest items it had, so the database contributes no item.
\<close>

theorem placeholder_skipped:
  assumes "startswith ref ''TODO:''"
    and "py_get db_config ''notion_url'' (PStr []) = Inr (PStr ref)"
  shows "extract_notion_id ref = None
       \<and> (\<exists>r w'. export_database R notion db_config output_dir dry w = Some (r, w')
              \<and> (r = Inr PNone \<or> r = Inl KeyError)
              \<and> queries w' = queries w \<and> files w' = files w \<and> dirs w' = dirs w
              \<and> (\<forall>rest manifest_items.
                    export_each R notion output_dir dry (db_config # rest) manifest_items w
                      = (if r = Inr PNone
                         then export_each R notion output_dir dry rest manifest_items w'
                         else Some (Inl KeyError, w'))))"
proof -
  have n: "extract_notion_id ref = None"
    using assms(1) by (simp add: extract_notion_id_def)
  note e = placeholder_export [OF assms, of R notion output_dir dry w]
  show ?thesis
  proof (cases "py_subscript db_config ''key''")
    case (Inl err)
    with e have ex: "export_database R notion db_config output_dir dry w
                       = Some (Inl KeyError, w)"
      by simp
    have "\<forall>rest manifest_items.
            export_each R notion output_dir dry (db_config # rest) manifest_items w
              = Some (Inl KeyError, w)"
      by (simp add: ex)
    with n ex show ?thesis
      by (intro conjI exI [of _ "Inl KeyError"] exI [of _ w]) simp_all
  next
    case (Inr db_key)
    let ?w' = "print_err (''  Skipping '' @ [CHR 0x27] @ py_str R db_key @ [CHR 0x27]
                          @ '': placeholder URL'') w"
    from Inr e have ex: "export_database R notion db_config output_dir dry w
                          = Some (Inr PNone, ?w')"
      by (simp add: skip_database_def)
    have "\<forall>rest manifest_items.
            export_each R notion output_dir dry (db_config # rest) manifest_items w
              = export_each R notion output_dir dry rest manifest_items ?w'"
      by (simp add: ex)
    moreover have "queries ?w' = queries w" "files ?w' = files w" "dirs ?w' = dirs w"
      by simp_all
    ultimately show ?thesis using n ex
      by (intro conjI exI [of _ "Inr PNone"] exI [of _ ?w']) simp_all
  qed
qed

theorem placeholder_skipped_witness:
  "startswith ''TODO: create the database'' ''TODO:''
   \<and> extract_notion_id ''TODO: create the database'' = None
   \<and> (\<exists>w'. export_database sample_render three_record_service placeholder_db
              [''packages'', ''core''] False empty_world = Some (Inr PNone, w')
          \<and> queries w' = [] \<and> files w' = [] \<and> dirs w' = [])"
proof -
  define w' where
    "w' = snd (the (export_database sample_render three_record_service placeholder_db
                      [''packages'', ''core''] False empty_world))"
  have a: "startswith ''TODO: create the database'' ''TODO:''"
    by (simp add: startswith_def)
  have b: "py_get placeholder_db ''notion_url'' (PStr []) = Inr (PStr ''TODO: create the database'')"
    by (simp add: placeholder_db_def dict_get_def)
  have e: "export_database sample_render three_record_service placeholder_db
              [''packages'', ''core''] False empty_world = Some (Inr PNone, w')"
    unfolding w'_def by code_simp
  have f1: "queries w' = []" unfolding w'_def by code_simp
  have f2: "files w' = []" unfolding w'_def by code_simp
  have f3: "dirs w' = []" unfolding w'_def by code_simp
  have g: "extract_notion_id ''TODO: create the database'' = None"
    using placeholder_skipped [OF a b, of sample_render three_record_service
                              "[''packages'', ''core'']" False empty_world]
    by (rule conjunct1)
  have h: "\<exists>w'. export_database sample_render three_record_service placeholder_db
              [''packages'', ''core''] False empty_world = Some (Inr PNone, w')
          \<and> queries w' = [] \<and> files w' = [] \<and> dirs w' = []"
    by (rule exI [of _ w']) (intro conjI e f1 f2 f3)
  from a g h show ?thesis by (intro conjI)
qed

section \<open>Claims about the manifest item\<close>




section \<open>Claims about the paginated fetcher\<close>

text \<open>
  C4 (as amended). Let the service answer the fetcher's queries with the responses
  \<open>rs\<close>, of which every one but the last signals more data. Then the fetcher
  returns, having issued exactly one query per response, each with page size 100; the
  first query carries no cursor and every later query carries the \<open>next_cursor\<close> of
  the response before it when that cursor is true, and no cursor when it is missing,
  null or empty; the result is the concatenation of the records of all responses in
  the order received.
\<close>

theorem fetch_follows_cursor:
  assumes "rs \<noteq> []" and "length reqs = length rs" and "length items = length rs"
    and "\<forall>k<length rs. reqs ! k =
           \<lparr>database_id = db_id, page_size = 100,
            start_cursor =
              (if k = 0 then None
               else cursor_kwarg (dict_get (rs ! (k - 1)) ''next_cursor'' PNone))\<rparr>"
    and "\<forall>k<length rs. notion (log @ take (Suc k) reqs) = Inr (PDict (rs ! k))"
    and "\<forall>k<length rs. py_iter (dict_get (rs ! k) ''results'' (PList [])) = Inr (items ! k)"
    and "\<forall>k<length rs. truthy (dict_get (rs ! k) ''has_more'' PNone) \<longleftrightarrow> Suc k < length rs"
  shows "query_all_pages notion db_id log = Some (Inr (concat items), log @ reqs)"
proof -
  have "\<forall>k<length rs. reqs ! k =
           \<lparr>database_id = db_id, page_size = 100,
            start_cursor = cursor_kwarg
              (if k = 0 then PNone else dict_get (rs ! (k - 1)) ''next_cursor'' PNone)\<rparr>"
    using assms(4) by (simp add: cursor_kwarg_def)
  from query_loop_run [OF assms(1-3) this assms(5-7), of "[]"]
  show ?thesis by (simp add: query_all_pages_def)
qed

theorem fetch_follows_cursor_witness:
  "query_all_pages two_page_service ''db'' []
     = Some (Inr (map record_n [0 ..< 150]),
             [\<lparr>database_id = ''db'', page_size = 100, start_cursor = None\<rparr>,
              \<lparr>database_id = ''db'', page_size = 100,
               start_cursor = Some (PStr ''cursor-100'')\<rparr>])
   \<and> length (map record_n [0 ..< 150]) = 150"
proof -
  let ?q1 = "\<lparr>database_id = ''db'', page_size = 100, start_cursor = None\<rparr>"
  let ?q2 = "\<lparr>database_id = ''db'', page_size = 100, start_cursor = Some (PStr ''cursor-100'')\<rparr>"
  let ?rs = "[first_page, second_page]"
  let ?items = "[map record_n [0 ..< 100], map record_n [100 ..< 150]]"
  have a: "?rs \<noteq> []" by simp
  have b: "length [?q1, ?q2] = length ?rs" by simp
  have c: "length ?items = length ?rs" by simp
  have d: "\<forall>k<length ?rs. [?q1, ?q2] ! k =
           \<lparr>database_id = ''db'', page_size = 100,
            start_cursor =
              (if k = 0 then None
               else cursor_kwarg (dict_get (?rs ! (k - 1)) ''next_cursor'' PNone))\<rparr>"
    by (simp add: less_Suc_eq cursor_kwarg_def dict_get_def first_page_def)
  have e: "\<forall>k<length ?rs. two_page_service ([] @ take (Suc k) [?q1, ?q2]) = Inr (PDict (?rs ! k))"
    by (simp add: less_Suc_eq two_page_service_def)
  have f: "\<forall>k<length ?rs. py_iter (dict_get (?rs ! k) ''results'' (PList [])) = Inr (?items ! k)"
    by (simp add: less_Suc_eq dict_get_def first_page_def second_page_def)
  have g: "\<forall>k<length ?rs. truthy (dict_get (?rs ! k) ''has_more'' PNone) \<longleftrightarrow> Suc k < length ?rs"
    by (simp add: less_Suc_eq dict_get_def first_page_def second_page_def)
  have h: "[0 ..< 150] = [0 ..< 100] @ [100 ..< 150]"
    using upt_add_eq_append [of 0 100 50] by simp
  from fetch_follows_cursor [OF a b c d e f g] show ?thesis
    by (simp add: h)
qed

text \<open>
  The claim as stated, that every query from the second on passes the previous
  response's cursor, fails on a response that announces more data with an empty
  cursor: the second query carries no cursor.
\<close>

theorem empty_cursor_counterexample:
  "empty_cursor_service [\<lparr>database_id = ''db'', page_size = 100, start_cursor = None\<rparr>]
     = Inr (PDict [(''results'', PList [record_n 0]),
                   (''has_more'', PBool True), (''next_cursor'', PStr [])])
   \<and> query_all_pages empty_cursor_service ''db'' []
     = Some (Inr [record_n 0, record_n 1],
             [\<lparr>database_id = ''db'', page_size = 100, start_cursor = None\<rparr>,
              \<lparr>database_id = ''db'', page_size = 100, start_cursor = None\<rparr>])"
  unfolding query_all_pages_def
  apply (subst query_loop.simps)
  apply (subst query_loop.simps)
  apply (simp add: query_step_def empty_cursor_service_def cursor_kwarg_def bindE_def
                   dict_get_def Let_def)
  done

section \<open>Claims about the identifier resolver\<close>

text \<open>
  C5 (as amended). For every reference string that does not begin with the placeholder
  marker \<open>TODO:\<close> and contains the web domain marker \<open>notion.so\<close>, the resolver
  takes the part before the first question mark, of that the part after the last
  slash, and of that the part after the last hyphen; whenever that substring is
  exactly 32 characters long, the resolver returns exactly that substring.
\<close>

theorem url_reference_resolved:
  assumes "\<not> startswith ref ''TODO:''" and "str_contains ''notion.so'' ref"
    and "length (url_raw_id ref) = 32"
  shows "extract_notion_id ref = Some (url_raw_id ref)
         \<and> url_raw_id ref =
             rev (takeWhile (\<lambda>c. c \<noteq> CHR ''-'')
                   (takeWhile (\<lambda>c. c \<noteq> CHR ''/'')
                      (rev (takeWhile (\<lambda>c. c \<noteq> CHR ''?'') ref))))"
  using assms
  by (simp add: extract_notion_id_def url_raw_id_def hd_split_on last_split_on)

theorem url_reference_resolved_witness:
  "\<not> startswith ''https://www.notion.so/ws/My-Db-0123456789abcdef0123456789abcdef?v=1'' ''TODO:''
   \<and> str_contains ''notion.so''
        ''https://www.notion.so/ws/My-Db-0123456789abcdef0123456789abcdef?v=1''
   \<and> length (url_raw_id
        ''https://www.notion.so/ws/My-Db-0123456789abcdef0123456789abcdef?v=1'') = 32
   \<and> extract_notion_id
        ''https://www.notion.so/ws/My-Db-0123456789abcdef0123456789abcdef?v=1''
        = Some ''0123456789abcdef0123456789abcdef''"
proof -
  let ?u = "''https://www.notion.so/ws/My-Db-0123456789abcdef0123456789abcdef?v=1''"
  have a: "\<not> startswith ?u ''TODO:''" by (simp add: startswith_def)
  have b: "str_contains ''notion.so'' ?u" by (simp add: startswith_def)
  have r: "url_raw_id ?u = ''0123456789abcdef0123456789abcdef''"
    by (simp add: url_raw_id_def)
  have c: "length (url_raw_id ?u) = 32" by (simp add: r)
  show ?thesis
    using a b c url_reference_resolved [OF a b c] by (simp add: r)
qed

text \<open>
  The claim as stated, for every reference that contains the domain marker, fails on
  a placeholder that contains it: the substring after the last hyphen has 32
  characters and the resolver returns the not-resolvable signal.
\<close>

theorem placeholder_url_counterexample:
  "str_contains ''notion.so'' ''TODO:notion.so/0123456789abcdef0123456789abcdef''
   \<and> url_raw_id ''TODO:notion.so/0123456789abcdef0123456789abcdef''
        = ''0123456789abcdef0123456789abcdef''
   \<and> length ''0123456789abcdef0123456789abcdef'' = 32
   \<and> extract_notion_id ''TODO:notion.so/0123456789abcdef0123456789abcdef'' = None"
  by (simp add: extract_notion_id_def startswith_def url_raw_id_def)



section \<open>Claims about a database without records\<close>

text \<open>
  C7. For every database whose fetch returns zero records, the exporter emits a
  manifest item whose row count is 0 and writes no CSV file, in dry-run mode and in
  real mode: the files and directories are those of before.
\<close>

theorem zero_records_item:
  assumes "py_subscript db_config ''key'' = Inr db_key"
    and "py_get db_config ''notion_url'' (PStr []) = Inr (PStr ref)"
    and "extract_notion_id ref = Some db_id" and "db_id \<noteq> []"
    and "query_all_pages notion db_id (queries w) = Some (Inr [], log)"
  shows "\<exists>w'. export_database R notion db_config output_dir dry w
                 = Some (Inr (PDict [(''db_key'', db_key),
                                     (''output'', PStr (''data/'' @ py_str R db_key @ ''.csv'')),
                                     (''row_count'', PInt 0)]), w')
              \<and> files w' = files w \<and> dirs w' = dirs w"
  using assms
  by (simp add: export_database_def bindE_def extract_notion_id_py_def export_pages_def
                Let_def)

theorem zero_records_item_witness:
  "(\<exists>w'. export_database sample_render empty_service
            (PDict [(''key'', PStr ''services''), (''notion_url'', PStr ''services-db'')])
            [''packages'', ''core''] True empty_world
          = Some (Inr (PDict [(''db_key'', PStr ''services''),
                              (''output'', PStr ''data/services.csv''),
                              (''row_count'', PInt 0)]), w')
        \<and> files w' = [] \<and> dirs w' = [])
   \<and> (\<exists>w'. export_database sample_render empty_service
            (PDict [(''key'', PStr ''services''), (''notion_url'', PStr ''services-db'')])
            [''packages'', ''core''] False empty_world
          = Some (Inr (PDict [(''db_key'', PStr ''services''),
                              (''output'', PStr ''data/services.csv''),
                              (''row_count'', PInt 0)]), w')
        \<and> files w' = [] \<and> dirs w' = [])"
proof -
  let ?cfg = "PDict [(''key'', PStr ''services''), (''notion_url'', PStr ''services-db'')]"
  have a: "py_subscript ?cfg ''key'' = Inr (PStr ''services'')" by simp
  have b: "py_get ?cfg ''notion_url'' (PStr []) = Inr (PStr ''services-db'')"
    by (simp add: dict_get_def)
  have c: "extract_notion_id ''services-db'' = Some ''services-db''"
    by (simp add: extract_notion_id_def startswith_def replace_char_def)
  have d: "''services-db'' \<noteq> []" by simp
  have e: "query_all_pages empty_service ''services-db'' (queries empty_world)
             = Some (Inr [], queries empty_world
                       @ [\<lparr>database_id = ''services-db'', page_size = 100,
                           start_cursor = None\<rparr>])"
    by (rule empty_service_fetch)
  show ?thesis
    using zero_records_item [OF a b c d e, of sample_render "[''packages'', ''core'']" True]
          zero_records_item [OF a b c d e, of sample_render "[''packages'', ''core'']" False]
    by (simp add: empty_world_def)
qed

section \<open>Claims about the run\<close>



text \<open>
  C9. In dry-run mode, for every bundle content and whatever the outcome of the run,
  the program creates no directory and writes no file: the files and directories after
  the run are those of before. A run that reaches its end has printed the manifest,
  and the export of a database with at least one record prints the line that
  announces the rows instead of writing the CSV file.
\<close>

theorem dry_run_writes_nothing:
  assumes "args_dry_run a" and "main E a w = Some (r, w')"
  shows "files w' = files w \<and> dirs w' = dirs w
       \<and> (r = Inr () \<longrightarrow> (\<exists>manifest. JsonText manifest \<in> set (stdout w')))
       \<and> (\<forall>R db_key output_dir first rest w0 item w1.
             export_pages R db_key output_dir True (first # rest) w0 = (Inr item, w1) \<longrightarrow>
               files w1 = files w0 \<and> dirs w1 = dirs w0
             \<and> stdout w1 = stdout w0
                 @ [Line (''    Fetched '' @ str_nat (length (first # rest)) @ '' rows''),
                    Line (''    [DRY RUN] Would write '' @ str_nat (length (first # rest))
                          @ '' rows to data/'' @ py_str R db_key @ ''.csv'')])"
proof -
  obtain x w1 where s: "main_setup E a w = (x, w1)" by (cases "main_setup E a w")
  from keeps_fs_main_setup [of E a] s have fs1: "files w1 = files w \<and> dirs w1 = dirs w"
    unfolding keeps_fs_def by (metis snd_conv)
  have fs: "files w' = files w \<and> dirs w' = dirs w"
    and pr: "r = Inr () \<longrightarrow> (\<exists>manifest. JsonText manifest \<in> set (stdout w'))"
  proof -
    show "files w' = files w \<and> dirs w' = dirs w"
    proof (cases x)
      case (Inl e)
      with assms(2) s fs1 show ?thesis by (auto simp: main_def)
    next
      case (Inr t)
      obtain bundle_cfg defaults output_dir dbs where t: "t = (bundle_cfg, defaults, output_dir, dbs)"
        by (cases t) auto
      from assms s Inr t obtain r2 w2 where
        x: "export_each (py_render E) (notion_client E) output_dir True dbs [] w1 = Some (r2, w2)"
        by (cases "export_each (py_render E) (notion_client E) output_dir True dbs [] w1")
           (auto simp: main_def)
      note fs2 = export_each_dry [OF x]
      show ?thesis
      proof (cases r2)
        case (Inl e)
        with assms s Inr t x fs1 fs2 show ?thesis by (auto simp: main_def)
      next
        case (Inr manifest_items)
        with assms s \<open>x = Inr t\<close> t x
        have f: "main_finish E a bundle_cfg defaults output_dir manifest_items w2 = (r, w')"
          by (auto simp: main_def)
        from keeps_fs_main_finish_dry [OF assms(1), of E bundle_cfg defaults output_dir manifest_items] f
        have "files w' = files w2 \<and> dirs w' = dirs w2"
          unfolding keeps_fs_def by (metis snd_conv)
        with fs1 fs2 show ?thesis by simp
      qed
    qed
    show "r = Inr () \<longrightarrow> (\<exists>manifest. JsonText manifest \<in> set (stdout w'))"
    proof
      assume "r = Inr ()"
      with assms(2) have "main E a w = Some (Inr (), w')" by simp
      then obtain bundle_cfg defaults output_dir manifest_items w2 where
        "main_finish E a bundle_cfg defaults output_dir manifest_items w2 = (Inr (), w')"
        by (auto simp: main_def split: prod.splits sum.splits option.splits)
      from main_finish_Inr [OF this] assms(1)
      show "\<exists>manifest. JsonText manifest \<in> set (stdout w')" by auto
    qed
  qed
  have "\<forall>R db_key output_dir first rest w0 item w1.
             export_pages R db_key output_dir True (first # rest) w0 = (Inr item, w1) \<longrightarrow>
               files w1 = files w0 \<and> dirs w1 = dirs w0
             \<and> stdout w1 = stdout w0
                 @ [Line (''    Fetched '' @ str_nat (length (first # rest)) @ '' rows''),
                    Line (''    [DRY RUN] Would write '' @ str_nat (length (first # rest))
                          @ '' rows to data/'' @ py_str R db_key @ ''.csv'')]"
  proof (intro allI impI)
    fix R db_key output_dir first rest w0 item w1
    assume e: "export_pages R db_key output_dir True (first # rest) w0 = (Inr item, w1)"
    then obtain all_columns rows where
      t: "export_table R first (first # rest) = Inr (all_columns, rows)"
      by (auto simp: export_pages_def Let_def split: sum.splits)
    from export_table_rows [OF t] have l: "length rows = length (first # rest)" .
    from e t l show "files w1 = files w0 \<and> dirs w1 = dirs w0
             \<and> stdout w1 = stdout w0
                 @ [Line (''    Fetched '' @ str_nat (length (first # rest)) @ '' rows''),
                    Line (''    [DRY RUN] Would write '' @ str_nat (length (first # rest))
                          @ '' rows to data/'' @ py_str R db_key @ ''.csv'')]"
      by (auto simp: export_pages_def Let_def)
  qed
  with fs pr show ?thesis by blast
qed

theorem dry_run_writes_nothing_witness:
  "args_dry_run (sample_args True)
   \<and> main sample_env (sample_args True) empty_world = Some (Inr (), dry_run_world)
   \<and> files dry_run_world = files empty_world \<and> dirs dry_run_world = dirs empty_world
   \<and> JsonText sample_manifest \<in> set (stdout dry_run_world)
   \<and> Line ''    [DRY RUN] Would write 3 rows to data/services.csv''
       \<in> set (stdout dry_run_world)"
proof -
  have a: "args_dry_run (sample_args True)" by (simp add: sample_args_def)
  note run = sample_run_dry
  from dry_run_writes_nothing [OF a run]
  have fs: "files dry_run_world = files empty_world" "dirs dry_run_world = dirs empty_world"
    by blast+
  have j: "JsonText sample_manifest \<in> set (stdout dry_run_world)"
    by (simp add: dry_run_world_def)
  have l: "Line ''    [DRY RUN] Would write 3 rows to data/services.csv''
       \<in> set (stdout dry_run_world)"
    by (simp add: dry_run_world_def)
  show ?thesis by (intro conjI a run fs j l)
qed

section \<open>Claims about the property flattener\<close>

text \<open>
  C10 (as amended). For every formula property, and every rollup property whose
  result-type tag is not \<open>array\<close>, the flattener returns the rendering of the value
  stored under the property's own result-type tag, or the empty string when that key
  is absent. So a null value gives the string \<open>None\<close> and not the empty string; the
  empty string is returned when the tagged key is absent and also when the value
  under it is itself the empty string, and never for a null, boolean or integer value.
\<close>

theorem formula_rollup_null:
  assumes "map_of p ''type'' = Some (PStr kind)"
    and "kind = ''formula'' \<or> kind = ''rollup'' \<and> tag \<noteq> ''array''"
    and "map_of p kind = Some (PDict f)"
    and "map_of f ''type'' = Some (PStr tag)"
  shows "flatten_property R (PDict p) = Inr (PStr (py_str R (dict_get f tag (PStr []))))
         \<and> (map_of f tag = Some PNone \<longrightarrow> flatten_property R (PDict p) = Inr (PStr ''None''))
         \<and> (map_of f tag = None \<longrightarrow> flatten_property R (PDict p) = Inr (PStr []))
         \<and> (map_of f tag = Some (PStr []) \<longrightarrow> flatten_property R (PDict p) = Inr (PStr []))
         \<and> (\<forall>b. map_of f tag = Some (PBool b) \<longrightarrow> flatten_property R (PDict p) \<noteq> Inr (PStr []))
         \<and> (\<forall>i. map_of f tag = Some (PInt i) \<longrightarrow> flatten_property R (PDict p) \<noteq> Inr (PStr []))"
proof -
  have r: "flatten_property R (PDict p) = Inr (PStr (py_str R (dict_get f tag (PStr []))))"
  proof (cases "kind = ''formula''")
    case True
    with assms(1,3,4) show ?thesis by (simp add: flatten_formula)
  next
    case False
    with assms show ?thesis by (simp add: flatten_rollup)
  qed
  show ?thesis
    unfolding r by (simp add: dict_get_def str_int_nonempty)
qed

theorem formula_rollup_null_witness:
  "flatten_property sample_render
     (PDict [(''type'', PStr ''formula''),
             (''formula'', PDict [(''type'', PStr ''number''), (''number'', PNone)])])
     = Inr (PStr ''None'')
   \<and> flatten_property sample_render
     (PDict [(''type'', PStr ''rollup''),
             (''rollup'', PDict [(''type'', PStr ''date''), (''date'', PNone)])])
     = Inr (PStr ''None'')
   \<and> flatten_property sample_render
     (PDict [(''type'', PStr ''formula''), (''formula'', PDict [(''type'', PStr ''number'')])])
     = Inr (PStr [])"
proof -
  have a: "map_of [(''type'', PStr ''formula''),
                   (''formula'', PDict [(''type'', PStr ''number''), (''number'', PNone)])]
             ''type'' = Some (PStr ''formula'')"
    by simp
  have b: "''formula'' = ''formula'' \<or> ''formula'' = ''rollup'' \<and> ''number'' \<noteq> ''array''"
    by simp
  have c: "map_of [(''type'', PStr ''formula''),
                   (''formula'', PDict [(''type'', PStr ''number''), (''number'', PNone)])]
             ''formula'' = Some (PDict [(''type'', PStr ''number''), (''number'', PNone)])"
    by simp
  have d: "map_of [(''type'', PStr ''number''), (''number'', PNone)] ''type''
             = Some (PStr ''number'')"
    by simp
  have a': "map_of [(''type'', PStr ''rollup''),
                    (''rollup'', PDict [(''type'', PStr ''date''), (''date'', PNone)])]
             ''type'' = Some (PStr ''rollup'')"
    by simp
  have b': "''rollup'' = ''formula'' \<or> ''rollup'' = ''rollup'' \<and> ''date'' \<noteq> ''array''"
    by simp
  have c': "map_of [(''type'', PStr ''rollup''),
                    (''rollup'', PDict [(''type'', PStr ''date''), (''date'', PNone)])]
             ''rollup'' = Some (PDict [(''type'', PStr ''date''), (''date'', PNone)])"
    by simp
  have d': "map_of [(''type'', PStr ''date''), (''date'', PNone)] ''type''
             = Some (PStr ''date'')"
    by simp
  have a'': "map_of [(''type'', PStr ''formula''),
                     (''formula'', PDict [(''type'', PStr ''number'')])]
             ''type'' = Some (PStr ''formula'')"
    by simp
  have c'': "map_of [(''type'', PStr ''formula''),
                     (''formula'', PDict [(''type'', PStr ''number'')])]
             ''formula'' = Some (PDict [(''type'', PStr ''number'')])"
    by simp
  have d'': "map_of [(''type'', PStr ''number'')] ''type'' = Some (PStr ''number'')"
    by simp
  show ?thesis
    using formula_rollup_null [OF a b c d, of sample_render]
          formula_rollup_null [OF a' b' c' d', of sample_render]
          formula_rollup_null [OF a'' b c'' d'', of sample_render]
    by (simp add: dict_get_def)
qed

text \<open>
  The claim as stated, that the empty string is returned only when the tagged key is
  absent, fails on a formula whose string result is the empty string: the key is
  present and the flattener returns the empty string.
\<close>

theorem formula_empty_string_counterexample:
  "map_of [(''type'', PStr ''string''), (''string'', PStr [])] ''string'' = Some (PStr [])
   \<and> flatten_property sample_render
       (PDict [(''type'', PStr ''formula''),
               (''formula'', PDict [(''type'', PStr ''string''), (''string'', PStr [])])])
       = Inr (PStr [])"
  by (simp add: flatten_property_def bindE_def dict_get_def)

end
